theory Spec2Isabelle
  imports Complex_Main "HOL-Library.Sublist" "HOL-Library.AList"
begin

section \<open>Call-graph analysis (package adt, Code Analysis Infrastructure operations)\<close>

subsection \<open>Data model\<close>

text \<open>
  \<^verbatim>\<open>type CallGraphNode struct { URI, Name, Type, Description string; Line, Column int;
  Children []CallGraphNode }\<close>. The children are held by value, so the structure is a
  finite tree.
\<close>

datatype CallGraphNode =
  CallGraphNode (URI: string) (Name: string) (Type: string) (Description: string)
    (Line: int) (Column: int) (Children: "CallGraphNode list")

text \<open>
  \<^verbatim>\<open>type CallGraphEdge struct { CallerURI, CallerName, CalleeURI, CalleeName string; Line int }\<close>.
  The field \<^verbatim>\<open>Line\<close> is called \<open>EdgeLine\<close> here, the node's selector has the name already.
\<close>

record CallGraphEdge =
  CallerURI :: string
  CallerName :: string
  CalleeURI :: string
  CalleeName :: string
  EdgeLine :: int

text \<open>
  \<^verbatim>\<open>type CallGraphStats struct { TotalNodes, TotalEdges, MaxDepth int;
  NodesByType map[string]int; UniqueNodes []string }\<close>.
  Go's \<^verbatim>\<open>int\<close> has 64 bits; a counter here is bounded by the number of nodes of a tree
  held in memory, so the counters are unbounded integers.
\<close>

record CallGraphStats =
  TotalNodes :: int
  TotalEdges :: int
  MaxDepth :: int
  NodesByType :: "string \<rightharpoonup> int"
  UniqueNodes :: "string list"

subsection \<open>FlattenCallGraph\<close>

definition mkEdge :: "CallGraphNode \<Rightarrow> CallGraphNode \<Rightarrow> CallGraphEdge" where
  "mkEdge parent child =
     \<lparr>CallerURI = URI parent, CallerName = Name parent,
      CalleeURI = URI child, CalleeName = Name child, EdgeLine = Line child\<rparr>"

text \<open>
  The closure \<^verbatim>\<open>traverse\<close> of \<^verbatim>\<open>FlattenCallGraph\<close>: the captured slice \<^verbatim>\<open>edges\<close>
  is the state, passed in and returned. For each child in order it appends the edge, then
  descends into the child.
\<close>

fun flatten_traverse :: "CallGraphNode \<Rightarrow> CallGraphEdge list \<Rightarrow> CallGraphEdge list" where
  "flatten_traverse (CallGraphNode u n t d l c cs) edges =
     fold (\<lambda>child es.
             flatten_traverse child (es @ [mkEdge (CallGraphNode u n t d l c cs) child]))
          cs edges"

text \<open>A nil root gives the nil slice.\<close>

definition FlattenCallGraph :: "CallGraphNode option \<Rightarrow> CallGraphEdge list" where
  "FlattenCallGraph rootNode = (case rootNode of None \<Rightarrow> [] | Some r \<Rightarrow> flatten_traverse r [])"

subsection \<open>AnalyzeCallGraph\<close>

text \<open>
  The state of the closure \<^verbatim>\<open>traverse\<close> of \<^verbatim>\<open>AnalyzeCallGraph\<close>: the statistics under
  construction, the map \<^verbatim>\<open>seen\<close> (only \<^verbatim>\<open>true\<close> is ever stored in it, so it is the set of
  its keys) and the local \<^verbatim>\<open>maxDepth\<close>.
\<close>

record analyze_state =
  stats :: CallGraphStats
  seen :: "string set"
  maxDepth :: int

definition bumpType :: "(string \<rightharpoonup> int) \<Rightarrow> string \<Rightarrow> (string \<rightharpoonup> int)" where
  "bumpType m t = m(t \<mapsto> (case m t of None \<Rightarrow> 1 | Some k \<Rightarrow> k + 1))"

definition note_depth :: "int \<Rightarrow> analyze_state \<Rightarrow> analyze_state" where
  "note_depth depth st = (if depth > maxDepth st then st\<lparr>maxDepth := depth\<rparr> else st)"

definition note_node :: "CallGraphNode \<Rightarrow> analyze_state \<Rightarrow> analyze_state" where
  "note_node node st =
     (if URI node \<notin> seen st
      then st\<lparr>seen := insert (URI node) (seen st),
              stats := (stats st)\<lparr>TotalNodes := TotalNodes (stats st) + 1,
                                  NodesByType := bumpType (NodesByType (stats st)) (Type node),
                                  UniqueNodes := UniqueNodes (stats st) @ [Name node]\<rparr>\<rparr>
      else st)"

definition note_edge :: "analyze_state \<Rightarrow> analyze_state" where
  "note_edge st = st\<lparr>stats := (stats st)\<lparr>TotalEdges := TotalEdges (stats st) + 1\<rparr>\<rparr>"

fun analyze_traverse :: "CallGraphNode \<Rightarrow> int \<Rightarrow> analyze_state \<Rightarrow> analyze_state" where
  "analyze_traverse (CallGraphNode u n t d l c cs) depth st =
     fold (\<lambda>child s. analyze_traverse child (depth + 1) (note_edge s))
          cs
          (note_node (CallGraphNode u n t d l c cs) (note_depth depth st))"

definition emptyStats :: CallGraphStats where
  "emptyStats = \<lparr>TotalNodes = 0, TotalEdges = 0, MaxDepth = 0,
                 NodesByType = Map.empty, UniqueNodes = []\<rparr>"

definition AnalyzeCallGraph :: "CallGraphNode option \<Rightarrow> CallGraphStats" where
  "AnalyzeCallGraph rootNode =
     (case rootNode of
        None \<Rightarrow> emptyStats
      | Some r \<Rightarrow>
          (let st = analyze_traverse r 0 \<lparr>stats = emptyStats, seen = {}, maxDepth = 0\<rparr>
           in (stats st)\<lparr>MaxDepth := maxDepth st\<rparr>))"

subsection \<open>CompareCallGraphs\<close>

text \<open>
  \<^verbatim>\<open>type CallGraphComparison struct { CommonEdges, StaticOnly, ActualOnly []CallGraphEdge;
  CoverageRatio float64 }\<close>. The ratio is the quotient of two lengths converted to
  \<^verbatim>\<open>float64\<close>; it is kept as the exact quotient, a real number, and the rounding of the
  floating-point division is not modelled.
\<close>

record CallGraphComparison =
  CommonEdges :: "CallGraphEdge list"
  StaticOnly :: "CallGraphEdge list"
  ActualOnly :: "CallGraphEdge list"
  CoverageRatio :: real

text \<open>The key of an edge: \<^verbatim>\<open>e.CallerName + "->" + e.CalleeName\<close>.\<close>

definition edgeKey :: "CallGraphEdge \<Rightarrow> string" where
  "edgeKey e = CallerName e @ ''->'' @ CalleeName e"

text \<open>
  The lookup sets are Go maps from key to edge, filled in the order of the list, a later
  edge replacing an earlier one of the same key. A map is an association list with
  distinct keys. Go leaves the order in which \<^verbatim>\<open>range\<close> visits a map unspecified; the
  loops below visit the entries in the order of their first insertion, and the properties
  proved of the three result lists do not depend on that order (they speak of their
  elements, their keys and their lengths).
\<close>

definition edgeSet :: "CallGraphEdge list \<Rightarrow> (string \<times> CallGraphEdge) list" where
  "edgeSet edges = fold (\<lambda>e m. AList.update (edgeKey e) e m) edges []"

definition CompareCallGraphs ::
  "CallGraphEdge list \<Rightarrow> CallGraphEdge list \<Rightarrow> CallGraphComparison" where
  "CompareCallGraphs staticEdges actualEdges =
     (let comp = \<lparr>CommonEdges = [], StaticOnly = [], ActualOnly = [], CoverageRatio = 0\<rparr>;
          staticSet = edgeSet staticEdges;
          actualSet = edgeSet actualEdges;
          comp = fold (\<lambda>(key, edge) comp.
                         if map_of actualSet key \<noteq> None
                         then comp\<lparr>CommonEdges := CommonEdges comp @ [edge]\<rparr>
                         else comp\<lparr>StaticOnly := StaticOnly comp @ [edge]\<rparr>)
                       staticSet comp;
          comp = fold (\<lambda>(key, edge) comp.
                         if map_of staticSet key = None
                         then comp\<lparr>ActualOnly := ActualOnly comp @ [edge]\<rparr>
                         else comp)
                       actualSet comp
      in if length staticEdges > 0
         then comp\<lparr>CoverageRatio :=
                      real (length (CommonEdges comp)) / real (length staticEdges)\<rparr>
         else comp)"

text \<open>The keys of a list of edges.\<close>

definition keys_of :: "CallGraphEdge list \<Rightarrow> string set" where
  "keys_of edges = edgeKey ` set edges"

text \<open>
  The invariant of a lookup set built from the list \<open>es\<close>: its keys are distinct and every
  entry holds an edge of the list under the key of that edge.
\<close>

definition well_keyed :: "CallGraphEdge list \<Rightarrow> (string \<times> CallGraphEdge) list \<Rightarrow> bool" where
  "well_keyed es m \<longleftrightarrow>
     distinct (map fst m) \<and> (\<forall>(k, e) \<in> set m. k = edgeKey e \<and> e \<in> set es)"

subsection \<open>What the statistics are compared with\<close>

text \<open>The URIs that occur in a tree, and the number of its parent-to-child pairs.\<close>

fun node_uris :: "CallGraphNode \<Rightarrow> string set" where
  "node_uris (CallGraphNode u n t d l c cs) = insert u (\<Union>ch \<in> set cs. node_uris ch)"

fun count_edges :: "CallGraphNode \<Rightarrow> nat" where
  "count_edges (CallGraphNode u n t d l c cs) = length cs + sum_list (map count_edges cs)"

text \<open>
  The parent-to-child occurrences of a tree in pre-order, as pairs of nodes: for each
  child in order, the pair of the parent and this child, followed by the pairs below the
  child. It is defined on the tree alone, with nothing of the code that builds an edge.
\<close>

fun child_pairs :: "CallGraphNode \<Rightarrow> (CallGraphNode \<times> CallGraphNode) list" where
  "child_pairs (CallGraphNode u n t d l c cs) =
     concat (map (\<lambda>child. (CallGraphNode u n t d l c cs, child) # child_pairs child) cs)"

text \<open>
  The invariant of the traversal (the counter of nodes is the size of \<open>seen\<close>) and what
  one call adds to the state: the URIs \<open>U\<close> to \<open>seen\<close> and \<open>k\<close> to the counter of edges.
\<close>

definition nodes_counted :: "analyze_state \<Rightarrow> bool" where
  "nodes_counted st \<longleftrightarrow> finite (seen st) \<and> TotalNodes (stats st) = int (card (seen st))"

definition traversed :: "analyze_state \<Rightarrow> string set \<Rightarrow> nat \<Rightarrow> analyze_state \<Rightarrow> bool" where
  "traversed st U k st' \<longleftrightarrow>
     nodes_counted st' \<and> seen st' = seen st \<union> U \<and>
     TotalEdges (stats st') = TotalEdges (stats st) + int k"

section \<open>Strings of the Go standard library\<close>

text \<open>
  A Go string is a sequence of bytes, here a \<open>char list\<close>. \<^verbatim>\<open>strings.ToUpper\<close> and
  \<^verbatim>\<open>strings.ToLower\<close> map an ASCII-only string byte by byte (\<^verbatim>\<open>c -= 'a' - 'A'\<close>); a
  string with a byte above 127 goes through the Unicode tables instead, which are not
  modelled: the two functions below are the library's on the strings that satisfy
  \<open>isASCII\<close>, and the properties that depend on the case mapping are stated for such
  names (the names of ABAP objects are ASCII).
\<close>

definition isASCII :: "string \<Rightarrow> bool" where
  "isASCII s = list_all (\<lambda>c. (of_char c :: nat) < 128) s"

definition upper_byte :: "char \<Rightarrow> char" where
  "upper_byte c =
     (let k = (of_char c :: nat) in if 97 \<le> k \<and> k \<le> 122 then char_of (k - 32) else c)"

definition lower_byte :: "char \<Rightarrow> char" where
  "lower_byte c =
     (let k = (of_char c :: nat) in if 65 \<le> k \<and> k \<le> 90 then char_of (k + 32) else c)"

definition ToUpper :: "string \<Rightarrow> string" where
  "ToUpper s = map upper_byte s"

definition ToLower :: "string \<Rightarrow> string" where
  "ToLower s = map lower_byte s"

text \<open>
  \<^verbatim>\<open>url.PathEscape\<close> is \<^verbatim>\<open>escape(s, encodePathSegment)\<close>: letters, digits and
  \<^verbatim>\<open>- _ . ~\<close> stay; of the reserved characters \<^verbatim>\<open>$ & + , / : ; = ? @\<close> the four
  \<^verbatim>\<open>/ ; , ?\<close> are escaped; every other byte is escaped. An escaped byte is \<^verbatim>\<open>%\<close> and
  its two upper-case hexadecimal digits.
\<close>

definition isAlnum :: "char \<Rightarrow> bool" where
  "isAlnum c =
     (let k = (of_char c :: nat)
      in (97 \<le> k \<and> k \<le> 122) \<or> (65 \<le> k \<and> k \<le> 90) \<or> (48 \<le> k \<and> k \<le> 57))"

definition shouldEscape :: "char \<Rightarrow> bool" where
  "shouldEscape c =
     (if isAlnum c then False
      else if c \<in> set ''-_.~'' then False
      else if c \<in> set ''$&+,/:;=?@''
           then c = CHR ''/'' \<or> c = CHR '';'' \<or> c = CHR '','' \<or> c = CHR ''?''
      else True)"

definition upperhex :: string where
  "upperhex = ''0123456789ABCDEF''"

definition escape_byte :: "char \<Rightarrow> string" where
  "escape_byte c =
     [CHR ''%'', upperhex ! ((of_char c :: nat) div 16), upperhex ! ((of_char c :: nat) mod 16)]"

definition PathEscape :: "string \<Rightarrow> string" where
  "PathEscape s = concat (map (\<lambda>c. if shouldEscape c then escape_byte c else [c]) s)"

text \<open>
  \<^verbatim>\<open>strings.Split(s, sep)\<close> for a separator of one byte (one piece more than there are
  separators; the empty string gives one empty piece) and \<^verbatim>\<open>strings.Join\<close>.
\<close>

fun Split :: "string \<Rightarrow> char \<Rightarrow> string list" where
  "Split [] sep = [[]]"
| "Split (x # xs) sep =
     (if x = sep then [] # Split xs sep
      else (case Split xs sep of [] \<Rightarrow> [[x]] | l # ls \<Rightarrow> (x # l) # ls))"

fun Join :: "string list \<Rightarrow> string \<Rightarrow> string" where
  "Join [] sep = []"
| "Join [l] sep = l"
| "Join (l # ls) sep = l @ sep @ Join ls sep"

text \<open>The verb \<^verbatim>\<open>%d\<close> of \<^verbatim>\<open>fmt.Sprintf\<close>: the decimal digits, with a sign when negative.\<close>

fun digits10 :: "nat \<Rightarrow> string" where
  "digits10 n =
     (if n < 10 then [char_of (48 + n)] else digits10 (n div 10) @ [char_of (48 + n mod 10)])"

definition itoa :: "int \<Rightarrow> string" where
  "itoa i = (if i < 0 then CHR ''-'' # digits10 (nat (- i)) else digits10 (nat i))"

text \<open>
  A slice expression \<^verbatim>\<open>xs[lo:hi]\<close> panics unless \<^verbatim>\<open>0 <= lo <= hi <= cap(xs)\<close>; the slices
  it is applied to here come from \<^verbatim>\<open>strings.Split\<close>, whose capacity is their length.
  \<open>None\<close> is the panic.
\<close>

definition go_slice :: "'a list \<Rightarrow> int \<Rightarrow> int \<Rightarrow> 'a list option" where
  "go_slice xs lo hi =
     (if 0 \<le> lo \<and> lo \<le> hi \<and> hi \<le> int (length xs)
      then Some (take (nat (hi - lo)) (drop (nat lo) xs))
      else None)"

section \<open>The ADT client (pkg/adt/client.go)\<close>

subsection \<open>Errors, safety policy, transport\<close>

text \<open>
  Errors are values. \<open>Wrap msg e\<close> is \<^verbatim>\<open>fmt.Errorf("msg: %w", e)\<close>; the three errors of
  \<^verbatim>\<open>GetClassMethodSource\<close> carry the arguments of their format strings;
  \<open>PanicSliceBounds\<close> is not an error value of the Go code but the run-time panic of an
  out-of-range slice expression, with the two bounds.
\<close>

datatype error =
    TransportError string
  | Malformed string
  | Denied string
  | Wrap string error
  | MethodNotFound string string
  | NoImplementation string
  | RangeExceeds int int int
  | PanicSliceBounds int int

datatype OperationType =
  OpRead | OpWrite | OpCreate | OpDelete | OpExecute | OpLock | OpDebug | OpTransport

text \<open>
  The type \<^verbatim>\<open>SafetyConfig\<close> and its methods \<^verbatim>\<open>CheckOperation\<close> and \<^verbatim>\<open>CheckPackage\<close> are
  declared in a file that is not among the sources. A policy is a parameter of the
  client, given by the two decisions it takes (\<open>None\<close> allows, \<open>Some e\<close> denies with the
  error \<open>e\<close>); every policy is of this form.
\<close>

record SafetyConfig =
  CheckOperation :: "OperationType \<Rightarrow> string \<Rightarrow> error option"
  CheckPackage :: "string \<Rightarrow> error option"

record Config =
  Username :: string
  Safety :: SafetyConfig

text \<open>
  \<^verbatim>\<open>RequestOptions\<close>, with the fields the callers set. \<^verbatim>\<open>Query\<close> is a \<^verbatim>\<open>url.Values\<close>
  filled by \<^verbatim>\<open>Set\<close>, which keeps one value for a key.
\<close>

record RequestOptions =
  Method :: string
  Query :: "(string \<times> string) list"
  Accept :: string
  ContentType :: string
  RequestBody :: string

definition noOptions :: RequestOptions where
  "noOptions = \<lparr>Method = [], Query = [], Accept = [], ContentType = [], RequestBody = []\<rparr>"

definition MethodGet :: string where
  "MethodGet = ''GET''"

definition MethodPost :: string where
  "MethodPost = ''POST''"

record SentRequest =
  Path :: string
  Options :: RequestOptions

record Response =
  Body :: string

text \<open>
  Modelled from the spec: \<^verbatim>\<open>Transport.Request\<close> is not among the sources. The spec gives
  its contract, \<^verbatim>\<open>Request(path, options)\<close> returning a response or a transport error.
  The transport here is the test double of the spec's property 3: it records every call
  of \<^verbatim>\<open>Request\<close> in \<open>requests\<close>, and answers with \<open>respond\<close>, a parameter that stands
  for the server and may depend on the calls made before.
\<close>

record Transport =
  requests :: "SentRequest list"
  respond :: "SentRequest list \<Rightarrow> SentRequest \<Rightarrow> error + Response"

definition Request ::
  "Transport \<Rightarrow> string \<Rightarrow> RequestOptions \<Rightarrow> (error + Response) \<times> Transport" where
  "Request t path opts =
     (let r = \<lparr>Path = path, Options = opts\<rparr>
      in (respond t (requests t) r, t\<lparr>requests := requests t @ [r]\<rparr>))"

text \<open>
  \<^verbatim>\<open>type Client struct { transport *Transport; config *Config; ... }\<close>. The transport is
  shared and mutated by a request, so every operation returns the client with it.
\<close>

record Client =
  transport :: Transport
  config :: Config

definition transportRequest ::
  "Client \<Rightarrow> string \<Rightarrow> RequestOptions \<Rightarrow> (error + Response) \<times> Client" where
  "transportRequest c path opts =
     (let (resp, t) = Request (transport c) path opts in (resp, c\<lparr>transport := t\<rparr>))"

definition checkSafety :: "Client \<Rightarrow> OperationType \<Rightarrow> string \<Rightarrow> error option" where
  "checkSafety c op opName = CheckOperation (Safety (config c)) op opName"

definition checkPackageSafety :: "Client \<Rightarrow> string \<Rightarrow> error option" where
  "checkPackageSafety c pkg = CheckPackage (Safety (config c)) pkg"

subsection \<open>Read operations\<close>

text \<open>
  The decoders of the response bodies (\<^verbatim>\<open>encoding/xml\<close> and the parsers built on it)
  are parameters of the operations that call them.
\<close>

definition SearchObject ::
  "(string \<Rightarrow> error + 'r) \<Rightarrow> Client \<Rightarrow> string \<Rightarrow> int \<Rightarrow> (error + 'r) \<times> Client" where
  "SearchObject ParseSearchResults c query maxResults =
     (let maxResults = (if maxResults \<le> 0 then 100 else maxResults);
          params = AList.update ''maxResults'' (itoa maxResults)
                     (AList.update ''query'' query
                        (AList.update ''operation'' ''quickSearch'' []));
          (resp, c') = transportRequest c ''/sap/bc/adt/repository/informationsystem/search''
                         (noOptions\<lparr>Method := MethodGet, Query := params,
                                    Accept := ''application/xml''\<rparr>)
      in case resp of
           Inl err \<Rightarrow> (Inl (Wrap ''search request failed'' err), c')
         | Inr r \<Rightarrow> (ParseSearchResults (Body r), c'))"

definition GetProgram :: "Client \<Rightarrow> string \<Rightarrow> (error + string) \<times> Client" where
  "GetProgram c programName =
     (let programName = ToUpper programName;
          sourcePath = ''/sap/bc/adt/programs/programs/'' @ PathEscape programName
                         @ ''/source/main'';
          (resp, c') = transportRequest c sourcePath (noOptions\<lparr>Method := MethodGet\<rparr>)
      in case resp of
           Inl err \<Rightarrow> (Inl (Wrap ''getting program source'' err), c')
         | Inr r \<Rightarrow> (Inr (Body r), c'))"

definition GetClass :: "Client \<Rightarrow> string \<Rightarrow> (error + (string \<rightharpoonup> string)) \<times> Client" where
  "GetClass c className =
     (let className = ToUpper className;
          sourcePath = ''/sap/bc/adt/oo/classes/'' @ PathEscape className @ ''/source/main'';
          (resp, c') = transportRequest c sourcePath (noOptions\<lparr>Method := MethodGet\<rparr>)
      in case resp of
           Inl err \<Rightarrow> (Inl (Wrap ''getting class source'' err), c')
         | Inr r \<Rightarrow> (Inr [''main'' \<mapsto> Body r], c'))"

text \<open>Reading a key that a Go map does not hold gives the zero value, the empty string.\<close>

definition GetClassSource :: "Client \<Rightarrow> string \<Rightarrow> (error + string) \<times> Client" where
  "GetClassSource c className =
     (let (sources, c') = GetClass c className
      in case sources of
           Inl err \<Rightarrow> (Inl err, c')
         | Inr m \<Rightarrow> (Inr (case m ''main'' of None \<Rightarrow> [] | Some src \<Rightarrow> src), c'))"

text \<open>
  \<^verbatim>\<open>MethodInfo\<close>, with the fields that \<^verbatim>\<open>GetClassMethodSource\<close> reads (its \<^verbatim>\<open>Name\<close> is
  \<open>MethodName\<close> here).
\<close>

record MethodInfo =
  MethodName :: string
  ImplementationStart :: int
  ImplementationEnd :: int

definition GetClassMethods ::
  "(string \<Rightarrow> error + 's) \<Rightarrow> ('s \<Rightarrow> MethodInfo list) \<Rightarrow> Client \<Rightarrow> string
     \<Rightarrow> (error + MethodInfo list) \<times> Client" where
  "GetClassMethods ParseClassObjectStructure GetMethods c className =
     (let className = ToUpper className;
          path = ''/sap/bc/adt/oo/classes/'' @ PathEscape className @ ''/objectstructure'';
          (resp, c') = transportRequest c path
                         (noOptions\<lparr>Method := MethodGet,
                                    Accept := ''application/vnd.sap.adt.objectstructure.v2+xml''\<rparr>)
      in case resp of
           Inl err \<Rightarrow> (Inl (Wrap ''getting class object structure'' err), c')
         | Inr r \<Rightarrow>
             (case ParseClassObjectStructure (Body r) of
                Inl err \<Rightarrow> (Inl (Wrap ''parsing class object structure'' err), c')
              | Inr structure \<Rightarrow> (Inr (GetMethods structure), c')))"

text \<open>
  The loop of \<^verbatim>\<open>GetClassMethodSource\<close> stops at the first method of that name:
  \<open>find\<close>. The slice expression \<^verbatim>\<open>lines[method.ImplementationStart-1 : method.ImplementationEnd]\<close>
  is \<open>go_slice\<close>, with its panic as the result \<open>PanicSliceBounds\<close>.
\<close>

definition GetClassMethodSource ::
  "(string \<Rightarrow> error + 's) \<Rightarrow> ('s \<Rightarrow> MethodInfo list) \<Rightarrow> Client \<Rightarrow> string \<Rightarrow> string
     \<Rightarrow> (error + string) \<times> Client" where
  "GetClassMethodSource ParseClassObjectStructure GetMethods c className methodName =
     (let className = ToUpper className;
          methodName = ToUpper methodName;
          (methods, c1) = GetClassMethods ParseClassObjectStructure GetMethods c className
      in case methods of
           Inl err \<Rightarrow> (Inl (Wrap ''getting class methods'' err), c1)
         | Inr ms \<Rightarrow>
             (case find (\<lambda>m. MethodName m = methodName) ms of
                None \<Rightarrow> (Inl (MethodNotFound methodName className), c1)
              | Some method \<Rightarrow>
                  if ImplementationStart method = 0 \<or> ImplementationEnd method = 0
                  then (Inl (NoImplementation methodName), c1)
                  else
                    (let (fullSource, c2) = GetClassSource c1 className
                     in case fullSource of
                          Inl err \<Rightarrow> (Inl (Wrap ''getting class source'' err), c2)
                        | Inr src \<Rightarrow>
                            (let lines = Split src CHR 0x0A
                             in if ImplementationEnd method > int (length lines)
                                then (Inl (RangeExceeds (ImplementationStart method)
                                             (ImplementationEnd method) (int (length lines))), c2)
                                else
                                  (case go_slice lines (ImplementationStart method - 1)
                                          (ImplementationEnd method) of
                                     None \<Rightarrow>
                                       (Inl (PanicSliceBounds (ImplementationStart method - 1)
                                               (ImplementationEnd method)), c2)
                                   | Some methodLines \<Rightarrow>
                                       (Inr (Join methodLines [CHR 0x0A]), c2))))))"

definition GetInterface :: "Client \<Rightarrow> string \<Rightarrow> (error + string) \<times> Client" where
  "GetInterface c interfaceName =
     (let interfaceName = ToUpper interfaceName;
          sourcePath = ''/sap/bc/adt/oo/interfaces/'' @ PathEscape interfaceName
                         @ ''/source/main'';
          (resp, c') = transportRequest c sourcePath (noOptions\<lparr>Method := MethodGet\<rparr>)
      in case resp of
           Inl err \<Rightarrow> (Inl (Wrap ''getting interface source'' err), c')
         | Inr r \<Rightarrow> (Inr (Body r), c'))"

definition GetFunctionGroup ::
  "(string \<Rightarrow> error + 'g) \<Rightarrow> Client \<Rightarrow> string \<Rightarrow> (error + 'g) \<times> Client" where
  "GetFunctionGroup Unmarshal c groupName =
     (let groupName = ToUpper groupName;
          structPath = ''/sap/bc/adt/functions/groups/'' @ PathEscape groupName;
          (resp, c') = transportRequest c structPath
                         (noOptions\<lparr>Method := MethodGet, Accept := ''application/xml''\<rparr>)
      in case resp of
           Inl err \<Rightarrow> (Inl (Wrap ''getting function group'' err), c')
         | Inr r \<Rightarrow>
             (case Unmarshal (Body r) of
                Inl err \<Rightarrow> (Inl (Wrap ''parsing function group'' err), c')
              | Inr fg \<Rightarrow> (Inr fg, c')))"

definition GetFunction :: "Client \<Rightarrow> string \<Rightarrow> string \<Rightarrow> (error + string) \<times> Client" where
  "GetFunction c functionName groupName =
     (let functionName = ToUpper functionName;
          groupName = ToUpper groupName;
          sourcePath = ''/sap/bc/adt/functions/groups/'' @ PathEscape groupName
                         @ ''/fmodules/'' @ PathEscape functionName @ ''/source/main'';
          (resp, c') = transportRequest c sourcePath
                         (noOptions\<lparr>Method := MethodGet, Accept := ''text/plain''\<rparr>)
      in case resp of
           Inl err \<Rightarrow> (Inl (Wrap ''getting function source'' err), c')
         | Inr r \<Rightarrow> (Inr (Body r), c'))"

definition GetInclude :: "Client \<Rightarrow> string \<Rightarrow> (error + string) \<times> Client" where
  "GetInclude c includeName =
     (let includeName = ToUpper includeName;
          sourcePath = ''/sap/bc/adt/programs/includes/'' @ PathEscape includeName
                         @ ''/source/main'';
          (resp, c') = transportRequest c sourcePath
                         (noOptions\<lparr>Method := MethodGet, Accept := ''text/plain''\<rparr>)
      in case resp of
           Inl err \<Rightarrow> (Inl (Wrap ''getting include source'' err), c')
         | Inr r \<Rightarrow> (Inr (Body r), c'))"

definition GetDDLS :: "Client \<Rightarrow> string \<Rightarrow> (error + string) \<times> Client" where
  "GetDDLS c ddlsName =
     (let ddlsName = ToUpper ddlsName;
          sourcePath = ''/sap/bc/adt/ddic/ddl/sources/'' @ PathEscape ddlsName
                         @ ''/source/main'';
          (resp, c') = transportRequest c sourcePath
                         (noOptions\<lparr>Method := MethodGet, Accept := ''text/plain''\<rparr>)
      in case resp of
           Inl err \<Rightarrow> (Inl (Wrap ''getting DDLS source'' err), c')
         | Inr r \<Rightarrow> (Inr (Body r), c'))"

definition GetBDEF :: "Client \<Rightarrow> string \<Rightarrow> (error + string) \<times> Client" where
  "GetBDEF c bdefName =
     (let bdefName = ToUpper bdefName;
          sourcePath = ''/sap/bc/adt/bo/behaviordefinitions/'' @ PathEscape bdefName
                         @ ''/source/main'';
          (resp, c') = transportRequest c sourcePath
                         (noOptions\<lparr>Method := MethodGet, Accept := ''text/plain''\<rparr>)
      in case resp of
           Inl err \<Rightarrow> (Inl (Wrap ''getting BDEF source'' err), c')
         | Inr r \<Rightarrow> (Inr (Body r), c'))"

definition GetSRVD :: "Client \<Rightarrow> string \<Rightarrow> (error + string) \<times> Client" where
  "GetSRVD c srvdName =
     (let srvdName = ToUpper srvdName;
          sourcePath = ''/sap/bc/adt/ddic/srvd/sources/'' @ PathEscape srvdName
                         @ ''/source/main'';
          (resp, c') = transportRequest c sourcePath
                         (noOptions\<lparr>Method := MethodGet, Accept := ''text/plain''\<rparr>)
      in case resp of
           Inl err \<Rightarrow> (Inl (Wrap ''getting SRVD source'' err), c')
         | Inr r \<Rightarrow> (Inr (Body r), c'))"

definition GetSRVB ::
  "(string \<Rightarrow> error + 'b) \<Rightarrow> Client \<Rightarrow> string \<Rightarrow> (error + 'b) \<times> Client" where
  "GetSRVB parseSRVBMetadata c srvbName =
     (let srvbName = ToUpper srvbName;
          path = ''/sap/bc/adt/businessservices/bindings/'' @ PathEscape srvbName;
          (resp, c') = transportRequest c path
                         (noOptions\<lparr>Method := MethodGet, Accept := ''*/*''\<rparr>)
      in case resp of
           Inl err \<Rightarrow> (Inl (Wrap ''getting SRVB metadata'' err), c')
         | Inr r \<Rightarrow> (parseSRVBMetadata (Body r), c'))"

text \<open>
  \<^verbatim>\<open>type MessageClass struct { Name, Description string; Messages []MessageClassMessage }\<close>
  (\<^verbatim>\<open>Name\<close> and \<^verbatim>\<open>Description\<close> are \<open>ClassName\<close> and \<open>ClassDescription\<close> here).
\<close>

record MessageClassMessage =
  Number :: string
  Text :: string

record MessageClass =
  ClassName :: string
  ClassDescription :: string
  Messages :: "MessageClassMessage list"

definition GetMessageClass ::
  "(string \<Rightarrow> error + MessageClass) \<Rightarrow> Client \<Rightarrow> string
     \<Rightarrow> (error + MessageClass) \<times> Client" where
  "GetMessageClass Unmarshal c msgClassName =
     (let msgClassName = ToUpper msgClassName;
          path = ''/sap/bc/adt/messageclass/'' @ PathEscape (ToLower msgClassName);
          (resp, c') = transportRequest c path
                         (noOptions\<lparr>Method := MethodGet,
                                    Accept := ''application/vnd.sap.adt.mc.messageclass+xml''\<rparr>)
      in case resp of
           Inl err \<Rightarrow> (Inl (Wrap ''getting message class'' err), c')
         | Inr r \<Rightarrow>
             (case Unmarshal (Body r) of
                Inl err \<Rightarrow> (Inl (Wrap ''parsing message class XML'' err), c')
              | Inr mc \<Rightarrow> (Inr (mc\<lparr>ClassName := msgClassName\<rparr>), c')))"

definition GetPackage ::
  "(string \<Rightarrow> string \<Rightarrow> error + 'p) \<Rightarrow> Client \<Rightarrow> string \<Rightarrow> (error + 'p) \<times> Client" where
  "GetPackage parsePackageNodeStructure c packageName =
     (let packageName = ToUpper packageName;
          params = AList.update ''withShortDescriptions'' ''true''
                     (AList.update ''parent_name'' packageName
                        (AList.update ''parent_type'' ''DEVC/K'' []));
          (resp, c') = transportRequest c ''/sap/bc/adt/repository/nodestructure''
                         (noOptions\<lparr>Method := MethodPost, Query := params\<rparr>)
      in case resp of
           Inl err \<Rightarrow> (Inl (Wrap ''getting package contents'' err), c')
         | Inr r \<Rightarrow> (parsePackageNodeStructure (Body r) packageName, c'))"

definition GetTable :: "Client \<Rightarrow> string \<Rightarrow> (error + string) \<times> Client" where
  "GetTable c tableName =
     (let tableName = ToUpper tableName;
          sourcePath = ''/sap/bc/adt/ddic/tables/'' @ tableName @ ''/source/main'';
          (resp, c') = transportRequest c sourcePath (noOptions\<lparr>Method := MethodGet\<rparr>)
      in case resp of
           Inl err \<Rightarrow> (Inl (Wrap ''getting table source'' err), c')
         | Inr r \<Rightarrow> (Inr (Body r), c'))"

definition GetView :: "Client \<Rightarrow> string \<Rightarrow> (error + string) \<times> Client" where
  "GetView c viewName =
     (let viewName = ToUpper viewName;
          sourcePath = ''/sap/bc/adt/ddic/views/'' @ PathEscape viewName @ ''/source/main'';
          (resp, c') = transportRequest c sourcePath (noOptions\<lparr>Method := MethodGet\<rparr>)
      in case resp of
           Inl err \<Rightarrow> (Inl (Wrap ''getting view source'' err), c')
         | Inr r \<Rightarrow> (Inr (Body r), c'))"

definition GetStructure :: "Client \<Rightarrow> string \<Rightarrow> (error + string) \<times> Client" where
  "GetStructure c structName =
     (let structName = ToUpper structName;
          sourcePath = ''/sap/bc/adt/ddic/structures/'' @ structName @ ''/source/main'';
          (resp, c') = transportRequest c sourcePath (noOptions\<lparr>Method := MethodGet\<rparr>)
      in case resp of
           Inl err \<Rightarrow> (Inl (Wrap ''getting structure source'' err), c')
         | Inr r \<Rightarrow> (Inr (Body r), c'))"

subsection \<open>What is observed of a read operation\<close>

text \<open>
  The requests that an operation started on the client \<open>c\<close> has issued, read off the
  transport it returns, and their paths.
\<close>

definition sent :: "Client \<Rightarrow> 'a \<times> Client \<Rightarrow> SentRequest list" where
  "sent c r = drop (length (requests (transport c))) (requests (transport (snd r)))"

definition sent_paths :: "Client \<Rightarrow> 'a \<times> Client \<Rightarrow> string list" where
  "sent_paths c r = map Path (sent c r)"

text \<open>
  An operation consults no policy when replacing the configuration of the client (and so
  its policy) by any other changes neither its result nor the transport, and it does
  issue a request.
\<close>

definition policy_ignored :: "(Client \<Rightarrow> 'a \<times> Client) \<Rightarrow> Client \<Rightarrow> Config \<Rightarrow> bool" where
  "policy_ignored op c cfg \<longleftrightarrow>
     fst (op (c\<lparr>config := cfg\<rparr>)) = fst (op c) \<and>
     transport (snd (op (c\<lparr>config := cfg\<rparr>))) = transport (snd (op c)) \<and>
     sent c (op c) \<noteq> []"

text \<open>The request of an operation carries the encoded name \<open>enc\<close> in its path.\<close>

definition url_contains :: "string \<Rightarrow> string list \<Rightarrow> bool" where
  "url_contains enc paths \<longleftrightarrow> paths \<noteq> [] \<and> list_all (sublist enc) paths"

text \<open>
  Lines \<open>start\<close> through \<open>stop\<close> of a text, inclusive and counted from 1, as the
  specification words the result of \<^verbatim>\<open>GetClassMethodSource\<close>.
\<close>

definition lines_between :: "string list \<Rightarrow> int \<Rightarrow> int \<Rightarrow> string list" where
  "lines_between lines start stop = map (\<lambda>i. lines ! nat (i - 1)) [start..stop]"

text \<open>Concrete values for the examples: a policy that denies every operation.\<close>

definition denyAll :: SafetyConfig where
  "denyAll = \<lparr>CheckOperation = (\<lambda>op opName. Some (Denied ''operation denied by policy'')),
              CheckPackage = (\<lambda>pkg. Some (Denied ''package denied by policy''))\<rparr>"

definition answering :: "string \<Rightarrow> Transport" where
  "answering body = \<lparr>requests = [], respond = (\<lambda>log r. Inr \<lparr>Body = body\<rparr>)\<rparr>"

definition testClient :: "SafetyConfig \<Rightarrow> string \<Rightarrow> Client" where
  "testClient policy body =
     \<lparr>transport = answering body, config = \<lparr>Username = ''DEVELOPER'', Safety = policy\<rparr>\<rparr>"

definition failingDecoder :: "string \<Rightarrow> error + MessageClass" where
  "failingDecoder body = Inl (Malformed body)"

definition fixedDecoder :: "MessageClass \<Rightarrow> string \<Rightarrow> error + MessageClass" where
  "fixedDecoder mc body = Inr mc"

definition serverClass :: MessageClass where
  "serverClass = \<lparr>ClassName = ''zServerName'', ClassDescription = ''Test'',
                  Messages = [\<lparr>Number = ''001'', Text = ''Hello''\<rparr>]\<rparr>"

definition demoMethods :: "MethodInfo list" where
  "demoMethods =
     [\<lparr>MethodName = ''RUN'', ImplementationStart = 2, ImplementationEnd = 3\<rparr>,
      \<lparr>MethodName = ''ABSTRACT_ONE'', ImplementationStart = 0, ImplementationEnd = 0\<rparr>,
      \<lparr>MethodName = ''FAR'', ImplementationStart = 3, ImplementationEnd = 9\<rparr>]"

definition demoSource :: string where
  "demoSource = ''l1\<newline>l2\<newline>l3\<newline>l4''"

definition demoParse :: "string \<Rightarrow> error + string" where
  "demoParse body = Inr body"

definition demoGetMethods :: "string \<Rightarrow> MethodInfo list" where
  "demoGetMethods structure = demoMethods"

text \<open>
  An object structure whose method \<^verbatim>\<open>RUN\<close> starts at line 5 and ends at line 2, and a main
  source of three lines.
\<close>

definition startBeyondSource :: "MethodInfo list" where
  "startBeyondSource =
     [\<lparr>MethodName = ''RUN'', ImplementationStart = 5, ImplementationEnd = 2\<rparr>]"

definition startBeyondSourceMethods :: "string \<Rightarrow> MethodInfo list" where
  "startBeyondSourceMethods structure = startBeyondSource"

definition threeLines :: string where
  "threeLines = ''l1\<newline>l2\<newline>l3''"

section \<open>The debug daemon (cmd/vsp/daemon.go)\<close>

subsection \<open>Sessions and responses\<close>

text \<open>
  \<^verbatim>\<open>type DebugSession struct\<close>. \<^verbatim>\<open>StartTime\<close> is the clock reading in nanoseconds. The
  fields \<^verbatim>\<open>Stack\<close> and \<^verbatim>\<open>Variables\<close> have types of package adt that are not among the
  sources, and with \<^verbatim>\<open>Breakpoints\<close>, the channel \<^verbatim>\<open>ListenerDone\<close> and the mutex they
  are not touched by the handlers of \<^verbatim>\<open>/session\<close>; they are left out. \<^verbatim>\<open>Error\<close> is
  \<open>SessionError\<close> here.
\<close>

record DebugSession =
  ID :: string
  Status :: string
  User :: string
  StartTime :: int
  DebuggeeID :: string
  CurrentURI :: string
  CurrentLine :: int
  SessionError :: string

text \<open>
  \<^verbatim>\<open>type DebugDaemon struct { client; session *DebugSession; mu; verbose }\<close>: the state
  that the handlers read and write is the session slot, \<open>None\<close> for the nil pointer.
  A handler holds the daemon's mutex while it reads or replaces the slot, so a handler is
  one step on this state.
\<close>

record DebugDaemon =
  session :: "DebugSession option"

text \<open>\<^verbatim>\<open>type StartSessionRequest struct { User string; Timeout int }\<close>, as decoded from the body.\<close>

record StartSessionRequest =
  ReqUser :: string
  Timeout :: int

text \<open>
  \<^verbatim>\<open>type APIResponse struct { Success bool; Data interface{}; Error string }\<close>. The data
  of the session handlers is a map of named values or the session itself.
\<close>

datatype jvalue = JString string | JNumber int

datatype payload = NoData | Fields "(string \<times> jvalue) list" | Snapshot DebugSession

record APIResponse =
  Success :: bool
  Data :: payload
  Error :: string

text \<open>What a handler writes to the \<^verbatim>\<open>http.ResponseWriter\<close>: the status code and the JSON body.\<close>

record HTTPReply =
  StatusCode :: nat
  Envelope :: APIResponse

definition StatusOK :: nat where
  "StatusOK = 200"

definition StatusNotFound :: nat where
  "StatusNotFound = 404"

definition StatusMethodNotAllowed :: nat where
  "StatusMethodNotAllowed = 405"

definition StatusConflict :: nat where
  "StatusConflict = 409"

definition writeJSON :: "nat \<Rightarrow> APIResponse \<Rightarrow> HTTPReply" where
  "writeJSON status data = \<lparr>StatusCode = status, Envelope = data\<rparr>"

definition writeError :: "nat \<Rightarrow> string \<Rightarrow> HTTPReply" where
  "writeError status msg = writeJSON status \<lparr>Success = False, Data = NoData, Error = msg\<rparr>"

definition writeSuccess :: "payload \<Rightarrow> HTTPReply" where
  "writeSuccess data = writeJSON StatusOK \<lparr>Success = True, Data = data, Error = []\<rparr>"

text \<open>
  What a handler starts besides its reply: the listener goroutine with its timeout, or a
  detach request to the debugger.
\<close>

datatype effect = RunListener string int | DebuggerDetach

subsection \<open>The handlers of /session\<close>

definition getSession :: "DebugDaemon \<Rightarrow> HTTPReply" where
  "getSession d =
     (case session d of
        None \<Rightarrow> writeSuccess (Fields [(''status'', JString ''no_session'')])
      | Some s \<Rightarrow> writeSuccess (Snapshot s))"

text \<open>
  \<^verbatim>\<open>startSession\<close>. Its inputs besides the daemon: the decoded request (a body that does
  not decode leaves the zero values), the configured user name \<^verbatim>\<open>cfg.Username\<close>, and the
  two readings of the clock, \<^verbatim>\<open>time.Now().UnixNano()\<close> for the id and \<^verbatim>\<open>time.Now()\<close>
  for the start time.
\<close>

definition startSession ::
  "DebugDaemon \<Rightarrow> StartSessionRequest \<Rightarrow> string \<Rightarrow> int \<Rightarrow> int
     \<Rightarrow> HTTPReply \<times> DebugDaemon \<times> effect list" where
  "startSession d req cfgUsername nowNano now =
     (let req = (if Timeout req = 0 then req\<lparr>Timeout := 60\<rparr> else req);
          req = (if ReqUser req = [] then req\<lparr>ReqUser := cfgUsername\<rparr> else req)
      in if (case session d of None \<Rightarrow> False | Some s \<Rightarrow> Status s \<noteq> ''stopped'')
         then (writeError StatusConflict ''session already active'', d, [])
         else
           (let s = \<lparr>ID = ''dbg-'' @ itoa nowNano, Status = ''waiting'', User = ReqUser req,
                     StartTime = now, DebuggeeID = [], CurrentURI = [], CurrentLine = 0,
                     SessionError = []\<rparr>
            in (writeSuccess
                  (Fields [(''id'', JString (ID s)),
                           (''status'', JString (Status s)),
                           (''user'', JString (User s)),
                           (''timeout'', JNumber (Timeout req)),
                           (''message'', JString (''Debug listener started for user ''
                               @ ReqUser req @ '' (timeout: '' @ itoa (Timeout req) @ ''s)''))]),
                d\<lparr>session := Some s\<rparr>,
                [RunListener (ID s) (Timeout req)])))"

definition stopSession :: "DebugDaemon \<Rightarrow> HTTPReply \<times> DebugDaemon \<times> effect list" where
  "stopSession d =
     (case session d of
        None \<Rightarrow> (writeError StatusNotFound ''no active session'', d, [])
      | Some s \<Rightarrow>
          (writeSuccess (Fields [(''message'', JString ''session stopped'')]),
           d\<lparr>session := Some (s\<lparr>Status := ''stopped''\<rparr>)\<rparr>,
           if DebuggeeID s \<noteq> [] then [DebuggerDetach] else []))"

definition handleSession ::
  "DebugDaemon \<Rightarrow> string \<Rightarrow> StartSessionRequest \<Rightarrow> string \<Rightarrow> int \<Rightarrow> int
     \<Rightarrow> HTTPReply \<times> DebugDaemon \<times> effect list" where
  "handleSession d method req cfgUsername nowNano now =
     (if method = ''GET'' then (getSession d, d, [])
      else if method = ''POST'' then startSession d req cfgUsername nowNano now
      else if method = ''DELETE'' then stopSession d
      else (writeError StatusMethodNotAllowed ''method not allowed'', d, []))"

text \<open>Concrete values for the examples.\<close>

definition noSession :: DebugDaemon where
  "noSession = \<lparr>session = None\<rparr>"

definition sessionWith :: "string \<Rightarrow> DebugDaemon" where
  "sessionWith st =
     \<lparr>session = Some \<lparr>ID = ''dbg-1'', Status = st, User = ''DEVELOPER'', StartTime = 1,
                       DebuggeeID = [], CurrentURI = [], CurrentLine = 0,
                       SessionError = []\<rparr>\<rparr>"

definition emptyRequest :: StartSessionRequest where
  "emptyRequest = \<lparr>ReqUser = [], Timeout = 0\<rparr>"

section \<open>The surgical editor of message-class XML\<close>

text \<open>
  Modelled from the spec: the function \<^verbatim>\<open>modifyMessageClassXML\<close> is not among the
  sources, only its tests are. The tests give its signature (the document, the map from
  message number to new text, the map from message number to lock handle; the edited
  bytes, the map of updated numbers, the list of deleted numbers and an error), section
  4.3 of the specification gives its behaviour: a transformation of the text by scanning
  for anchors, not of a tree. A deletion is an entry of the update map with the empty
  text, so the delete set is part of the update map. The update map is a list of its
  entries, visited in order.
\<close>

fun find_sub :: "string \<Rightarrow> string \<Rightarrow> nat option" where
  "find_sub pat [] = (if pat = [] then Some 0 else None)"
| "find_sub pat (x # xs) =
     (if prefix pat (x # xs) then Some 0 else map_option Suc (find_sub pat xs))"

definition find_from :: "string \<Rightarrow> string \<Rightarrow> nat \<Rightarrow> nat option" where
  "find_from pat s i = map_option (\<lambda>k. k + i) (find_sub pat (drop i s))"

definition rfind_sub :: "string \<Rightarrow> string \<Rightarrow> nat option" where
  "rfind_sub pat s =
     map_option (\<lambda>k. length s - length pat - k) (find_sub (rev pat) (rev s))"

text \<open>The escape of the special characters \<^verbatim>\<open>& < > "\<close> in a text value.\<close>

definition xml_escape :: "string \<Rightarrow> string" where
  "xml_escape s =
     concat (map (\<lambda>c. if c = CHR ''&'' then ''&amp;''
                       else if c = CHR ''<'' then ''&lt;''
                       else if c = CHR ''>'' then ''&gt;''
                       else if c = CHR 0x22 then ''&quot;''
                       else [c]) s)"

definition dquote :: string where
  "dquote = [CHR 0x22]"

text \<open>
  The \<^verbatim>\<open>messages\<close> element with a given number: the anchor is the attribute
  \<^verbatim>\<open>msgno="NNN"\<close>; the element starts at the last \<^verbatim>\<open><\<close> before it; its start tag ends at
  the next \<^verbatim>\<open>>\<close>; when that is preceded by \<^verbatim>\<open>/\<close> the element is self-closing, otherwise
  it ends with the closing tag of the same name, whatever lies between. The result is the
  start of the element, the end of its start tag and the end of the element.
\<close>

definition locate_message :: "string \<Rightarrow> string \<Rightarrow> (nat \<times> nat \<times> nat) option" where
  "locate_message doc msgno =
     (case find_sub (''msgno='' @ dquote @ msgno @ dquote) doc of
        None \<Rightarrow> None
      | Some p \<Rightarrow>
          (case rfind_sub ''<'' (take p doc) of
             None \<Rightarrow> None
           | Some st \<Rightarrow>
               (case find_from ''>'' doc p of
                  None \<Rightarrow> None
                | Some gt \<Rightarrow>
                    if 0 < gt \<and> doc ! (gt - 1) = CHR ''/'' then Some (st, gt + 1, gt + 1)
                    else
                      (let tag = takeWhile (\<lambda>c. c \<noteq> CHR '' '' \<and> c \<noteq> CHR ''>'')
                                   (drop (st + 1) doc);
                           closing = ''</'' @ tag @ ''>''
                       in case find_from closing doc gt of
                            None \<Rightarrow> None
                          | Some cl \<Rightarrow> Some (st, gt + 1, cl + length closing)))))"

text \<open>Replace only the value of the \<^verbatim>\<open>msgtext\<close> attribute in the start tag.\<close>

definition replace_msgtext :: "string \<Rightarrow> nat \<Rightarrow> nat \<Rightarrow> string \<Rightarrow> string option" where
  "replace_msgtext doc st tagEnd newText =
     (case find_from (''msgtext='' @ dquote) doc st of
        None \<Rightarrow> None
      | Some a \<Rightarrow>
          (let vs = a + length (''msgtext='' @ dquote)
           in case find_from dquote doc vs of
                None \<Rightarrow> None
              | Some ve \<Rightarrow>
                  if ve < tagEnd then Some (take vs doc @ xml_escape newText @ drop ve doc)
                  else None))"

text \<open>
  The namespace prefix observed on a sibling \<^verbatim>\<open>messages\<close> element (what stands between
  \<^verbatim>\<open><\<close> and \<^verbatim>\<open>messages\<close> in its start tag), the empty prefix when there is none.
\<close>

definition sibling_prefix :: "string \<Rightarrow> string" where
  "sibling_prefix doc =
     (case find_sub ''messages '' doc of
        None \<Rightarrow> []
      | Some q \<Rightarrow>
          (case rfind_sub ''<'' (take q doc) of
             None \<Rightarrow> []
           | Some st \<Rightarrow> drop (st + 1) (take q doc)))"

text \<open>
  A new self-closing element, placed immediately before the closing tag of
  \<^verbatim>\<open>messageClass\<close>, with the lock handle of the number when the map has one.
\<close>

definition insert_message ::
  "string \<Rightarrow> string \<Rightarrow> string \<Rightarrow> (string \<rightharpoonup> string) \<Rightarrow> string option" where
  "insert_message doc msgno newText lockHandles =
     (case rfind_sub ''messageClass>'' doc of
        None \<Rightarrow> None
      | Some q \<Rightarrow>
          (case rfind_sub ''</'' (take q doc) of
             None \<Rightarrow> None
           | Some cl \<Rightarrow>
               (let p = sibling_prefix doc;
                    lock = (case lockHandles msgno of
                              None \<Rightarrow> []
                            | Some h \<Rightarrow> '' '' @ p @ ''lockhandle='' @ dquote @ h @ dquote);
                    element = ''<'' @ p @ ''messages '' @ p @ ''msgno='' @ dquote @ msgno @ dquote
                              @ '' '' @ p @ ''msgtext='' @ dquote @ xml_escape newText @ dquote
                              @ lock @ ''/>'' @ [CHR 0x0A]
                in Some (take cl doc @ element @ drop cl doc))))"

text \<open>The state of the edit: the bytes, the updated numbers with their texts, the deleted numbers.\<close>

type_synonym edit_state = "string \<times> (string \<times> string) list \<times> string list"

definition apply_update ::
  "(string \<rightharpoonup> string) \<Rightarrow> string \<times> string \<Rightarrow> edit_state \<Rightarrow> edit_state" where
  "apply_update lockHandles entry st =
     (let (msgno, newText) = entry; (doc, updated, deleted) = st
      in case locate_message doc msgno of
           Some (a, tagEnd, b) \<Rightarrow>
             if newText = [] then (take a doc @ drop b doc, updated, deleted @ [msgno])
             else (case replace_msgtext doc a tagEnd newText of
                     None \<Rightarrow> st
                   | Some doc' \<Rightarrow> (doc', AList.update msgno newText updated, deleted))
         | None \<Rightarrow>
             if newText = [] then st
             else (case insert_message doc msgno newText lockHandles of
                     None \<Rightarrow> st
                   | Some doc' \<Rightarrow> (doc', AList.update msgno newText updated, deleted)))"

definition modifyMessageClassXML ::
  "string \<Rightarrow> (string \<times> string) list \<Rightarrow> (string \<rightharpoonup> string) \<Rightarrow> error + edit_state" where
  "modifyMessageClassXML xmlData updates lockHandles =
     Inr (fold (apply_update lockHandles) updates (xmlData, [], []))"

text \<open>A document with two messages, each with a nested link, for the scenarios.\<close>

definition twoMessages :: string where
  "twoMessages = ''<mc:messageClass mc:name=\"ZMC\">\<newline><mc:messages mc:msgno=\"001\" mc:msgtext=\"Keep\">\<newline><atom:link href=\"messages/001\"/>\<newline></mc:messages>\<newline><mc:messages mc:msgno=\"002\" mc:msgtext=\"Drop\">\<newline><atom:link href=\"messages/002\"/>\<newline></mc:messages>\<newline></mc:messageClass>''"



section \<open>Properties of the call-graph analysis\<close>

subsection \<open>FlattenCallGraph is the pre-order list of edges\<close>

lemma fold_flatten:
  assumes "\<And>ch es. ch \<in> set cs \<Longrightarrow>
             flatten_traverse ch es = es @ map (\<lambda>(p, c). mkEdge p c) (child_pairs ch)"
  shows "fold (\<lambda>child es. flatten_traverse child (es @ [mkEdge p child])) cs edges
         = edges @ map (\<lambda>(p, c). mkEdge p c)
                     (concat (map (\<lambda>child. (p, child) # child_pairs child) cs))"
  using assms by (induction cs arbitrary: edges) simp_all

lemma flatten_traverse_preorder:
  "flatten_traverse r es = es @ map (\<lambda>(p, c). mkEdge p c) (child_pairs r)"
proof (induction r arbitrary: es)
  case (CallGraphNode u n t d l c cs)
  show ?case
    unfolding flatten_traverse.simps child_pairs.simps
    by (rule fold_flatten) (rule CallGraphNode.IH)
qed

lemma length_child_pairs: "length (child_pairs r) = count_edges r"
proof (induction r)
  case (CallGraphNode u n t d l c cs)
  have "length (concat (map (\<lambda>child. (p, child) # child_pairs child) cs))
        = length cs + sum_list (map count_edges cs)" for p :: CallGraphNode
    using CallGraphNode.IH by (induction cs) simp_all
  then show ?case by simp
qed

text \<open>
  Claim C5. For every call-graph tree \<open>rootNode\<close>, \<open>FlattenCallGraph\<close> returns one edge per
  parent-to-child occurrence, in pre-order and with no deduplication: the result is the
  list of the occurrences \<open>child_pairs rootNode\<close>, each turned into the edge that has the
  URI and the name of the parent as caller, the URI and the name of the child as callee
  and the line of the child; an occurrence that is repeated in the tree is repeated in
  the result, and the length of the result is the number of parent-to-child pairs.
\<close>

theorem FlattenCallGraph_preorder:
  "FlattenCallGraph (Some rootNode)
     = map (\<lambda>(parent, child).
              \<lparr>CallerURI = URI parent, CallerName = Name parent,
               CalleeURI = URI child, CalleeName = Name child, EdgeLine = Line child\<rparr>)
           (child_pairs rootNode) \<and>
   length (FlattenCallGraph (Some rootNode)) = count_edges rootNode"
proof -
  have "mkEdge = (\<lambda>parent child.
              \<lparr>CallerURI = URI parent, CallerName = Name parent,
               CalleeURI = URI child, CalleeName = Name child, EdgeLine = Line child\<rparr>)"
    by (intro ext) (simp add: mkEdge_def)
  then show ?thesis
    by (simp add: FlattenCallGraph_def flatten_traverse_preorder length_child_pairs)
qed

subsection \<open>AnalyzeCallGraph counts distinct URIs and all edges\<close>

lemma note_depth_keeps [simp]:
  "seen (note_depth k st) = seen st" "stats (note_depth k st) = stats st"
  by (simp_all add: note_depth_def)

lemma note_edge_keeps [simp]:
  "seen (note_edge st) = seen st"
  "TotalNodes (stats (note_edge st)) = TotalNodes (stats st)"
  "TotalEdges (stats (note_edge st)) = TotalEdges (stats st) + 1"
  by (simp_all add: note_edge_def)

lemma note_node_seen [simp]: "seen (note_node nd st) = insert (URI nd) (seen st)"
  by (auto simp: note_node_def)

lemma note_node_edges [simp]: "TotalEdges (stats (note_node nd st)) = TotalEdges (stats st)"
  by (simp add: note_node_def)

lemma note_node_inv: "nodes_counted st \<Longrightarrow> nodes_counted (note_node nd st)"
  by (simp add: note_node_def nodes_counted_def)

lemma note_depth_inv: "nodes_counted st \<Longrightarrow> nodes_counted (note_depth k st)"
  by (simp add: nodes_counted_def)

lemma note_edge_inv: "nodes_counted st \<Longrightarrow> nodes_counted (note_edge st)"
  by (simp add: nodes_counted_def)

lemma fold_analyze:
  assumes "\<And>ch k st. ch \<in> set cs \<Longrightarrow> nodes_counted st \<Longrightarrow>
             traversed st (node_uris ch) (count_edges ch) (analyze_traverse ch k st)"
    and "nodes_counted st"
  shows "traversed st (\<Union>ch \<in> set cs. node_uris ch) (length cs + sum_list (map count_edges cs))
           (fold (\<lambda>child s. analyze_traverse child k (note_edge s)) cs st)"
  using assms
proof (induction cs arbitrary: st)
  case Nil
  then show ?case by (simp add: traversed_def)
next
  case (Cons ch cs)
  let ?s1 = "analyze_traverse ch k (note_edge st)"
  have p1: "traversed (note_edge st) (node_uris ch) (count_edges ch) ?s1"
    using Cons.prems by (simp add: note_edge_inv)
  then have i1: "nodes_counted ?s1" by (simp add: traversed_def)
  have p2: "traversed ?s1 (\<Union>c \<in> set cs. node_uris c)
              (length cs + sum_list (map count_edges cs))
              (fold (\<lambda>child s. analyze_traverse child k (note_edge s)) cs ?s1)"
    using Cons.prems(1) i1 by (intro Cons.IH) simp_all
  show ?case using p1 p2 by (auto simp: traversed_def)
qed

lemma analyze_traverse_traversed:
  "nodes_counted st \<Longrightarrow> traversed st (node_uris r) (count_edges r) (analyze_traverse r k st)"
proof (induction r arbitrary: k st)
  case (CallGraphNode u n t d l c cs)
  let ?nd = "CallGraphNode u n t d l c cs"
  let ?s0 = "note_node ?nd (note_depth k st)"
  have i0: "nodes_counted ?s0"
    using CallGraphNode.prems by (simp add: note_node_inv note_depth_inv)
  have "traversed ?s0 (\<Union>ch \<in> set cs. node_uris ch)
           (length cs + sum_list (map count_edges cs))
           (fold (\<lambda>child s. analyze_traverse child (k + 1) (note_edge s)) cs ?s0)"
    using CallGraphNode.IH i0 by (intro fold_analyze) simp_all
  then show ?case by (auto simp: traversed_def)
qed

text \<open>
  Claim C4. For every call-graph tree \<open>rootNode\<close>, \<open>AnalyzeCallGraph\<close> returns \<open>TotalNodes\<close>
  equal to the number of distinct node URIs of the tree (a URI that occurs several times
  is counted once) and \<open>TotalEdges\<close> equal to the number of parent-to-child pairs.
\<close>

theorem AnalyzeCallGraph_counts:
  "TotalNodes (AnalyzeCallGraph (Some rootNode)) = int (card (node_uris rootNode)) \<and>
   TotalEdges (AnalyzeCallGraph (Some rootNode)) = int (count_edges rootNode)"
proof -
  let ?s0 = "\<lparr>stats = emptyStats, seen = {}, maxDepth = 0\<rparr>"
  have "nodes_counted ?s0" by (simp add: nodes_counted_def emptyStats_def)
  then have "traversed ?s0 (node_uris rootNode) (count_edges rootNode) (analyze_traverse rootNode 0 ?s0)"
    by (rule analyze_traverse_traversed)
  then show ?thesis
    by (simp add: AnalyzeCallGraph_def traversed_def nodes_counted_def Let_def emptyStats_def)
qed

subsection \<open>CompareCallGraphs partitions the keyed edges\<close>

lemma set_update_subset: "set (AList.update k v al) \<subseteq> insert (k, v) (set al)"
  by (induction al) auto

lemma fold_update_keyed:
  assumes "well_keyed S m" and "set es \<subseteq> set S"
  shows "well_keyed S (fold (\<lambda>e m. AList.update (edgeKey e) e m) es m) \<and>
         fst ` set (fold (\<lambda>e m. AList.update (edgeKey e) e m) es m) = fst ` set m \<union> keys_of es"
  using assms
proof (induction es arbitrary: m)
  case Nil
  then show ?case by (simp add: keys_of_def)
next
  case (Cons e es)
  have wk: "well_keyed S (AList.update (edgeKey e) e m)"
    using Cons.prems set_update_subset[of "edgeKey e" e m]
    by (auto simp: well_keyed_def distinct_update)
  from Cons.IH[OF wk] Cons.prems(2) show ?case
    by (auto simp: dom_update keys_of_def)
qed

lemma edgeSet_keyed: "well_keyed es (edgeSet es)" and edgeSet_keys: "fst ` set (edgeSet es) = keys_of es"
  using fold_update_keyed[of es "[]" es] by (simp_all add: well_keyed_def edgeSet_def)

lemma map_of_edgeSet: "map_of (edgeSet es) k = None \<longleftrightarrow> k \<notin> keys_of es"
  by (simp add: map_of_eq_None_iff edgeSet_keys)

lemma map_of_edgeSet_Some: "(\<exists>y. map_of (edgeSet es) k = Some y) \<longleftrightarrow> k \<in> keys_of es"
  using map_of_edgeSet[of es k] by auto

lemma fold_static:
  "fold (\<lambda>(key, edge) comp.
            if P key then comp\<lparr>CommonEdges := CommonEdges comp @ [edge]\<rparr>
            else comp\<lparr>StaticOnly := StaticOnly comp @ [edge]\<rparr>) xs acc
   = acc\<lparr>CommonEdges := CommonEdges acc @ map snd (filter (\<lambda>p. P (fst p)) xs),
          StaticOnly := StaticOnly acc @ map snd (filter (\<lambda>p. \<not> P (fst p)) xs)\<rparr>"
  by (induction xs arbitrary: acc) (auto simp: case_prod_beta)

lemma fold_actual:
  "fold (\<lambda>(key, edge) comp.
            if P key then comp\<lparr>ActualOnly := ActualOnly comp @ [edge]\<rparr>
            else comp) xs acc
   = acc\<lparr>ActualOnly := ActualOnly acc @ map snd (filter (\<lambda>p. P (fst p)) xs)\<rparr>"
  by (induction xs arbitrary: acc) (auto simp: case_prod_beta)

lemma Compare_lists:
  "CommonEdges (CompareCallGraphs s a) = map snd (filter (\<lambda>p. fst p \<in> keys_of a) (edgeSet s))"
  "StaticOnly (CompareCallGraphs s a) = map snd (filter (\<lambda>p. fst p \<notin> keys_of a) (edgeSet s))"
  "ActualOnly (CompareCallGraphs s a) = map snd (filter (\<lambda>p. fst p \<notin> keys_of s) (edgeSet a))"
  by (simp_all add: CompareCallGraphs_def Let_def fold_static fold_actual map_of_edgeSet
        map_of_edgeSet_Some)

lemma keyed_filter:
  assumes "well_keyed es m"
  shows "map edgeKey (map snd (filter Q m)) = map fst (filter Q m)"
  using assms by (induction m) (auto simp: well_keyed_def)

lemma keys_of_filter:
  assumes "well_keyed es m"
  shows "keys_of (map snd (filter (\<lambda>p. Q (fst p)) m)) = {k \<in> fst ` set m. Q k}"
proof -
  have "keys_of (map snd (filter (\<lambda>p. Q (fst p)) m)) = set (map edgeKey (map snd (filter (\<lambda>p. Q (fst p)) m)))"
    by (simp add: keys_of_def image_image)
  also have "\<dots> = set (map fst (filter (\<lambda>p. Q (fst p)) m))"
    by (simp only: keyed_filter[OF assms])
  also have "\<dots> = {k \<in> fst ` set m. Q k}" by auto
  finally show ?thesis .
qed

lemma values_filter:
  assumes "well_keyed es m"
  shows "set (map snd (filter Q m)) \<subseteq> set es"
  using assms by (auto simp: well_keyed_def)

lemma CompareCallGraphs_keys:
  "keys_of (CommonEdges (CompareCallGraphs staticEdges actualEdges))
     = keys_of staticEdges \<inter> keys_of actualEdges \<and>
   keys_of (StaticOnly (CompareCallGraphs staticEdges actualEdges))
     = keys_of staticEdges - keys_of actualEdges \<and>
   keys_of (ActualOnly (CompareCallGraphs staticEdges actualEdges))
     = keys_of actualEdges - keys_of staticEdges \<and>
   distinct (map edgeKey (CommonEdges (CompareCallGraphs staticEdges actualEdges)
                          @ StaticOnly (CompareCallGraphs staticEdges actualEdges)
                          @ ActualOnly (CompareCallGraphs staticEdges actualEdges))) \<and>
   set (CommonEdges (CompareCallGraphs staticEdges actualEdges)) \<subseteq> set staticEdges \<and>
   set (StaticOnly (CompareCallGraphs staticEdges actualEdges)) \<subseteq> set staticEdges \<and>
   set (ActualOnly (CompareCallGraphs staticEdges actualEdges)) \<subseteq> set actualEdges \<and>
   CoverageRatio (CompareCallGraphs staticEdges actualEdges)
     = (if staticEdges = [] then 0
        else real (length (CommonEdges (CompareCallGraphs staticEdges actualEdges)))
             / real (length staticEdges))"
proof -
  note ks = edgeSet_keyed[of staticEdges] and ka = edgeSet_keyed[of actualEdges]
  have c: "keys_of (CommonEdges (CompareCallGraphs staticEdges actualEdges))
     = keys_of staticEdges \<inter> keys_of actualEdges"
    using keys_of_filter[OF ks, of "\<lambda>k. k \<in> keys_of actualEdges"]
    by (auto simp: Compare_lists edgeSet_keys)
  have s: "keys_of (StaticOnly (CompareCallGraphs staticEdges actualEdges))
     = keys_of staticEdges - keys_of actualEdges"
    using keys_of_filter[OF ks, of "\<lambda>k. k \<notin> keys_of actualEdges"]
    by (auto simp: Compare_lists edgeSet_keys)
  have a: "keys_of (ActualOnly (CompareCallGraphs staticEdges actualEdges))
     = keys_of actualEdges - keys_of staticEdges"
    using keys_of_filter[OF ka, of "\<lambda>k. k \<notin> keys_of staticEdges"]
    by (auto simp: Compare_lists edgeSet_keys)
  have ds: "distinct (map fst (edgeSet staticEdges))" and da: "distinct (map fst (edgeSet actualEdges))"
    using ks ka by (simp_all add: well_keyed_def)
  have eq: "map edgeKey (CommonEdges (CompareCallGraphs staticEdges actualEdges)
                          @ StaticOnly (CompareCallGraphs staticEdges actualEdges)
                          @ ActualOnly (CompareCallGraphs staticEdges actualEdges))
      = map fst (filter (\<lambda>p. fst p \<in> keys_of actualEdges) (edgeSet staticEdges))
        @ map fst (filter (\<lambda>p. fst p \<notin> keys_of actualEdges) (edgeSet staticEdges))
        @ map fst (filter (\<lambda>p. fst p \<notin> keys_of staticEdges) (edgeSet actualEdges))"
    by (simp only: Compare_lists map_append keyed_filter[OF ks] keyed_filter[OF ka])
  have d: "distinct (map edgeKey (CommonEdges (CompareCallGraphs staticEdges actualEdges)
                          @ StaticOnly (CompareCallGraphs staticEdges actualEdges)
                          @ ActualOnly (CompareCallGraphs staticEdges actualEdges)))"
    unfolding eq using ds da
    by (force simp: distinct_map_filter edgeSet_keys[symmetric])
  have sub: "set (CommonEdges (CompareCallGraphs staticEdges actualEdges)) \<subseteq> set staticEdges"
    "set (StaticOnly (CompareCallGraphs staticEdges actualEdges)) \<subseteq> set staticEdges"
    "set (ActualOnly (CompareCallGraphs staticEdges actualEdges)) \<subseteq> set actualEdges"
    unfolding Compare_lists by (rule values_filter[OF ks] values_filter[OF ka])+
  have r: "CoverageRatio (CompareCallGraphs staticEdges actualEdges)
     = (if staticEdges = [] then 0
        else real (length (CommonEdges (CompareCallGraphs staticEdges actualEdges)))
             / real (length staticEdges))"
    by (simp add: CompareCallGraphs_def Let_def fold_static fold_actual)
  from c s a d sub r show ?thesis by blast
qed

text \<open>
  Claim C6. For every pair of edge lists, \<open>CompareCallGraphs\<close> keys the edges by the two
  names, the key of an edge being the string of its caller name, \<^verbatim>\<open>->\<close> and its callee
  name, and partitions them: the keys of \<open>CommonEdges\<close> are the keys that occur in both
  lists, those of \<open>StaticOnly\<close> the keys of the static list that the actual list lacks,
  those of \<open>ActualOnly\<close> the keys of the actual list that the static list lacks; a key
  occurs once over the three lists, and every edge returned is an edge of the list it
  stands for. \<open>CoverageRatio\<close> is the length of \<open>CommonEdges\<close> divided by the length of the
  static list when that list is not empty, and 0 when it is.
\<close>

theorem CompareCallGraphs_partition:
  "(\<lambda>e. CallerName e @ ''->'' @ CalleeName e)
      ` set (CommonEdges (CompareCallGraphs staticEdges actualEdges))
     = (\<lambda>e. CallerName e @ ''->'' @ CalleeName e) ` set staticEdges
       \<inter> (\<lambda>e. CallerName e @ ''->'' @ CalleeName e) ` set actualEdges \<and>
   (\<lambda>e. CallerName e @ ''->'' @ CalleeName e)
      ` set (StaticOnly (CompareCallGraphs staticEdges actualEdges))
     = (\<lambda>e. CallerName e @ ''->'' @ CalleeName e) ` set staticEdges
       - (\<lambda>e. CallerName e @ ''->'' @ CalleeName e) ` set actualEdges \<and>
   (\<lambda>e. CallerName e @ ''->'' @ CalleeName e)
      ` set (ActualOnly (CompareCallGraphs staticEdges actualEdges))
     = (\<lambda>e. CallerName e @ ''->'' @ CalleeName e) ` set actualEdges
       - (\<lambda>e. CallerName e @ ''->'' @ CalleeName e) ` set staticEdges \<and>
   distinct (map (\<lambda>e. CallerName e @ ''->'' @ CalleeName e)
               (CommonEdges (CompareCallGraphs staticEdges actualEdges)
                @ StaticOnly (CompareCallGraphs staticEdges actualEdges)
                @ ActualOnly (CompareCallGraphs staticEdges actualEdges))) \<and>
   set (CommonEdges (CompareCallGraphs staticEdges actualEdges)) \<subseteq> set staticEdges \<and>
   set (StaticOnly (CompareCallGraphs staticEdges actualEdges)) \<subseteq> set staticEdges \<and>
   set (ActualOnly (CompareCallGraphs staticEdges actualEdges)) \<subseteq> set actualEdges \<and>
   CoverageRatio (CompareCallGraphs staticEdges actualEdges)
     = (if staticEdges = [] then 0
        else real (length (CommonEdges (CompareCallGraphs staticEdges actualEdges)))
             / real (length staticEdges))"
proof -
  have key: "edgeKey = (\<lambda>e. CallerName e @ ''->'' @ CalleeName e)"
    by (intro ext) (simp add: edgeKey_def)
  show ?thesis
    using CompareCallGraphs_keys[of staticEdges actualEdges]
    unfolding keys_of_def key .
qed

section \<open>Properties of the read operations\<close>

subsection \<open>Requests and the safety policy\<close>

lemma transportRequest_eq:
  "transportRequest c p opts =
     (respond (transport c) (requests (transport c)) \<lparr>Path = p, Options = opts\<rparr>,
      c\<lparr>transport := (transport c)\<lparr>requests := requests (transport c)
                                                   @ [\<lparr>Path = p, Options = opts\<rparr>]\<rparr>\<rparr>)"
  by (simp add: transportRequest_def Request_def Let_def)

lemma sent_append [simp]:
  "requests (transport c') = requests (transport c) @ rs \<Longrightarrow> sent c (x, c') = rs"
  by (simp add: sent_def)

lemmas reader_defs = SearchObject_def GetProgram_def GetClass_def GetClassSource_def
  GetClassMethods_def GetInterface_def GetFunctionGroup_def GetFunction_def GetInclude_def
  GetDDLS_def GetBDEF_def GetSRVD_def GetSRVB_def GetMessageClass_def GetPackage_def
  GetTable_def GetView_def GetStructure_def

lemmas reader_simps = reader_defs transportRequest_eq Let_def

lemma pi_SearchObject: "policy_ignored (\<lambda>c. SearchObject P c q k) c cfg"
  by (simp add: policy_ignored_def reader_simps split: sum.splits)
lemma pi_GetProgram: "policy_ignored (\<lambda>c. GetProgram c n) c cfg"
  by (simp add: policy_ignored_def reader_simps split: sum.splits)
lemma pi_GetClass: "policy_ignored (\<lambda>c. GetClass c n) c cfg"
  by (simp add: policy_ignored_def reader_simps split: sum.splits)
lemma pi_GetClassSource: "policy_ignored (\<lambda>c. GetClassSource c n) c cfg"
  by (simp add: policy_ignored_def reader_simps split: sum.splits)
lemma pi_GetClassMethods: "policy_ignored (\<lambda>c. GetClassMethods P G c n) c cfg"
  by (simp add: policy_ignored_def reader_simps split: sum.splits)
lemma pi_GetClassMethodSource: "policy_ignored (\<lambda>c. GetClassMethodSource P G c n m) c cfg"
  by (simp add: policy_ignored_def GetClassMethodSource_def reader_simps sent_def
           split: sum.splits option.splits)
lemma pi_GetInterface: "policy_ignored (\<lambda>c. GetInterface c n) c cfg"
  by (simp add: policy_ignored_def reader_simps split: sum.splits)
lemma pi_GetFunctionGroup: "policy_ignored (\<lambda>c. GetFunctionGroup U c n) c cfg"
  by (simp add: policy_ignored_def reader_simps split: sum.splits)
lemma pi_GetFunction: "policy_ignored (\<lambda>c. GetFunction c n g) c cfg"
  by (simp add: policy_ignored_def reader_simps split: sum.splits)
lemma pi_GetInclude: "policy_ignored (\<lambda>c. GetInclude c n) c cfg"
  by (simp add: policy_ignored_def reader_simps split: sum.splits)
lemma pi_GetDDLS: "policy_ignored (\<lambda>c. GetDDLS c n) c cfg"
  by (simp add: policy_ignored_def reader_simps split: sum.splits)
lemma pi_GetBDEF: "policy_ignored (\<lambda>c. GetBDEF c n) c cfg"
  by (simp add: policy_ignored_def reader_simps split: sum.splits)
lemma pi_GetSRVD: "policy_ignored (\<lambda>c. GetSRVD c n) c cfg"
  by (simp add: policy_ignored_def reader_simps split: sum.splits)
lemma pi_GetSRVB: "policy_ignored (\<lambda>c. GetSRVB P c n) c cfg"
  by (simp add: policy_ignored_def reader_simps split: sum.splits)
lemma pi_GetMessageClass: "policy_ignored (\<lambda>c. GetMessageClass U c n) c cfg"
  by (simp add: policy_ignored_def reader_simps split: sum.splits)
lemma pi_GetPackage: "policy_ignored (\<lambda>c. GetPackage P c n) c cfg"
  by (simp add: policy_ignored_def reader_simps split: sum.splits)
lemma pi_GetTable: "policy_ignored (\<lambda>c. GetTable c n) c cfg"
  by (simp add: policy_ignored_def reader_simps split: sum.splits)
lemma pi_GetView: "policy_ignored (\<lambda>c. GetView c n) c cfg"
  by (simp add: policy_ignored_def reader_simps split: sum.splits)
lemma pi_GetStructure: "policy_ignored (\<lambda>c. GetStructure c n) c cfg"
  by (simp add: policy_ignored_def reader_simps split: sum.splits)

text \<open>
  Claim C1, as amended. The claim says that every read operation applies the safety
  policy with the class \<open>OpRead\<close> before its request, so that a denying policy gives a
  denial and no request. The read operations of the client never call \<open>checkSafety\<close>:
  for every client, and so for every policy, also one that denies every operation, each
  read operation returns the same result and leaves the same transport as under any
  other configuration, and it issues its request to the transport.
\<close>

theorem readers_consult_no_policy:
  "policy_ignored (\<lambda>c. SearchObject ParseSearchResults c query maxResults) c cfg \<and>
   policy_ignored (\<lambda>c. GetProgram c name) c cfg \<and>
   policy_ignored (\<lambda>c. GetClass c name) c cfg \<and>
   policy_ignored (\<lambda>c. GetClassSource c name) c cfg \<and>
   policy_ignored (\<lambda>c. GetClassMethods ParseClassObjectStructure GetMethods c name) c cfg \<and>
   policy_ignored
     (\<lambda>c. GetClassMethodSource ParseClassObjectStructure GetMethods c name methodName) c cfg \<and>
   policy_ignored (\<lambda>c. GetInterface c name) c cfg \<and>
   policy_ignored (\<lambda>c. GetFunctionGroup UnmarshalGroup c name) c cfg \<and>
   policy_ignored (\<lambda>c. GetFunction c name groupName) c cfg \<and>
   policy_ignored (\<lambda>c. GetInclude c name) c cfg \<and>
   policy_ignored (\<lambda>c. GetDDLS c name) c cfg \<and>
   policy_ignored (\<lambda>c. GetBDEF c name) c cfg \<and>
   policy_ignored (\<lambda>c. GetSRVD c name) c cfg \<and>
   policy_ignored (\<lambda>c. GetSRVB parseSRVBMetadata c name) c cfg \<and>
   policy_ignored (\<lambda>c. GetMessageClass UnmarshalClass c name) c cfg \<and>
   policy_ignored (\<lambda>c. GetPackage parsePackageNodeStructure c name) c cfg \<and>
   policy_ignored (\<lambda>c. GetTable c name) c cfg \<and>
   policy_ignored (\<lambda>c. GetView c name) c cfg \<and>
   policy_ignored (\<lambda>c. GetStructure c name) c cfg"
  by (intro conjI pi_SearchObject pi_GetProgram pi_GetClass pi_GetClassSource pi_GetClassMethods
        pi_GetClassMethodSource pi_GetInterface pi_GetFunctionGroup pi_GetFunction pi_GetInclude
        pi_GetDDLS pi_GetBDEF pi_GetSRVD pi_GetSRVB pi_GetMessageClass pi_GetPackage pi_GetTable
        pi_GetView pi_GetStructure)

lemmas str_defs = PathEscape_def ToUpper_def ToLower_def upper_byte_def lower_byte_def
  shouldEscape_def isAlnum_def escape_byte_def upperhex_def isASCII_def

lemmas test_defs = testClient_def answering_def denyAll_def noOptions_def MethodGet_def

text \<open>
  The claim as stated fails: under the policy \<open>denyAll\<close>, whose check of \<open>OpRead\<close> is a
  denial, \<open>GetProgram\<close> returns the source and the transport has recorded one request.
\<close>

theorem denied_read_reaches_transport_counterexample:
  "checkSafety (testClient denyAll ''REPORT ztest.'') OpRead ''GetProgram''
     = Some (Denied ''operation denied by policy'') \<and>
   fst (GetProgram (testClient denyAll ''REPORT ztest.'') ''ztest'') = Inr ''REPORT ztest.'' \<and>
   sent_paths (testClient denyAll ''REPORT ztest.'')
      (GetProgram (testClient denyAll ''REPORT ztest.'') ''ztest'')
     = [''/sap/bc/adt/programs/programs/ZTEST/source/main'']"
  by (simp add: checkSafety_def sent_paths_def reader_simps test_defs str_defs char_of_eq_iff)


subsection \<open>Names in request paths\<close>

text \<open>
  Facts on the escaping of a path segment and on the two case mappings.
\<close>

lemma PathEscape_append: "PathEscape (a @ b) = PathEscape a @ PathEscape b"
  by (simp add: PathEscape_def)

lemma PathEscape_slash: "PathEscape ''/'' = ''%2F''"
  by (simp add: str_defs)

lemma shouldEscape_slash: "shouldEscape CHR ''/''"
  by (simp add: str_defs)

lemma hex_digit_no_slash: "k < 16 \<Longrightarrow> upperhex ! k \<noteq> CHR ''/''"
proof -
  assume "k < 16"
  then have "k < length upperhex" by (simp add: upperhex_def)
  then have "upperhex ! k \<in> set upperhex" by (rule nth_mem)
  moreover have "CHR ''/'' \<notin> set upperhex" by (simp add: upperhex_def)
  ultimately show ?thesis by metis
qed

lemma escape_byte_no_slash: "CHR ''/'' \<notin> set (escape_byte c)"
proof -
  have "(of_char c :: nat) < 256" by simp
  then have "(of_char c :: nat) div 16 < 16" "(of_char c :: nat) mod 16 < 16" by arith+
  then show ?thesis
    using hex_digit_no_slash[of "of_char c div 16"] hex_digit_no_slash[of "of_char c mod 16"]
    by (auto simp: escape_byte_def)
qed

lemma PathEscape_no_slash: "CHR ''/'' \<notin> set (PathEscape s)"
proof (induction s)
  case Nil
  then show ?case by (simp add: PathEscape_def)
next
  case (Cons c s)
  have "CHR ''/'' \<notin> set (if shouldEscape c then escape_byte c else [c])"
    using escape_byte_no_slash[of c] shouldEscape_slash by auto
  with Cons show ?case by (simp add: PathEscape_def)
qed

lemma char_of_shift_up:
  fixes k :: nat
  assumes "65 \<le> k" "k \<le> 90"
  shows "(of_char (char_of (k + 32)) :: nat) = k + 32"
  using assms by simp

lemma char_of_shift_down:
  fixes k :: nat
  assumes "97 \<le> k" "k \<le> 122"
  shows "(of_char (char_of (k - 32)) :: nat) = k - 32"
  using assms by simp

lemma lower_upper_byte: "lower_byte (upper_byte c) = lower_byte c"
proof (cases "97 \<le> (of_char c :: nat) \<and> (of_char c :: nat) \<le> 122")
  case True
  then have u: "upper_byte c = char_of ((of_char c :: nat) - 32)"
    by (simp add: upper_byte_def)
  have k: "(of_char (upper_byte c) :: nat) = of_char c - 32"
    unfolding u using True by (intro char_of_shift_down) simp_all
  have r: "65 \<le> (of_char c :: nat) - 32" "(of_char c :: nat) - 32 \<le> 90"
    "(of_char c :: nat) - 32 + 32 = of_char c"
    using True by arith+
  have "lower_byte (upper_byte c) = c"
    by (simp add: lower_byte_def k Let_def r)
  also have "c = lower_byte c" using True by (simp add: lower_byte_def)
  finally show ?thesis .
next
  case False
  then show ?thesis by (auto simp: upper_byte_def)
qed

lemma ToLower_ToUpper: "ToLower (ToUpper s) = ToLower s"
  by (simp add: ToLower_def ToUpper_def lower_upper_byte)

lemma shouldEscape_lower: "\<not> shouldEscape c \<Longrightarrow> \<not> shouldEscape (lower_byte c)"
proof (cases "65 \<le> (of_char c :: nat) \<and> (of_char c :: nat) \<le> 90")
  case True
  then have "(of_char (lower_byte c) :: nat) = of_char c + 32"
    by (simp add: lower_byte_def)
  then have "isAlnum (lower_byte c)" using True by (simp add: isAlnum_def)
  then show ?thesis by (simp add: shouldEscape_def)
next
  case False
  then have "lower_byte c = c" by (auto simp: lower_byte_def)
  then show "\<not> shouldEscape c \<Longrightarrow> ?thesis" by simp
qed

lemma PathEscape_plain: "list_all (\<lambda>c. \<not> shouldEscape c) s \<Longrightarrow> PathEscape s = s"
  by (induction s) (simp_all add: PathEscape_def)

lemma PathEscape_lower_plain:
  "list_all (\<lambda>c. \<not> shouldEscape c) s \<Longrightarrow> PathEscape (ToLower s) = ToLower s"
  by (rule PathEscape_plain) (simp add: ToLower_def list_all_iff shouldEscape_lower)


lemma url_contains_mid: "url_contains x [a @ x @ b]"
  by (simp add: url_contains_def sublist_appendI)

lemma url_contains_end: "url_contains x [a @ x]"
  using url_contains_mid[of x a "[]"] by simp

lemma paths_GetProgram:
  "sent_paths c (GetProgram c n)
     = [''/sap/bc/adt/programs/programs/'' @ PathEscape (ToUpper n) @ ''/source/main'']"
  by (simp add: sent_paths_def reader_simps split: sum.splits)
lemma paths_GetClass:
  "sent_paths c (GetClass c n)
     = [''/sap/bc/adt/oo/classes/'' @ PathEscape (ToUpper n) @ ''/source/main'']"
  by (simp add: sent_paths_def reader_simps split: sum.splits)
lemma paths_GetClassMethods:
  "sent_paths c (GetClassMethods P G c n)
     = [''/sap/bc/adt/oo/classes/'' @ PathEscape (ToUpper n) @ ''/objectstructure'']"
  by (simp add: sent_paths_def reader_simps split: sum.splits)
lemma paths_GetInterface:
  "sent_paths c (GetInterface c n)
     = [''/sap/bc/adt/oo/interfaces/'' @ PathEscape (ToUpper n) @ ''/source/main'']"
  by (simp add: sent_paths_def reader_simps split: sum.splits)
lemma paths_GetFunctionGroup:
  "sent_paths c (GetFunctionGroup U c n)
     = [''/sap/bc/adt/functions/groups/'' @ PathEscape (ToUpper n)]"
  by (simp add: sent_paths_def reader_simps split: sum.splits)
lemma paths_GetFunction:
  "sent_paths c (GetFunction c n g)
     = [''/sap/bc/adt/functions/groups/'' @ PathEscape (ToUpper g) @ ''/fmodules/''
          @ PathEscape (ToUpper n) @ ''/source/main'']"
  by (simp add: sent_paths_def reader_simps split: sum.splits)
lemma paths_GetInclude:
  "sent_paths c (GetInclude c n)
     = [''/sap/bc/adt/programs/includes/'' @ PathEscape (ToUpper n) @ ''/source/main'']"
  by (simp add: sent_paths_def reader_simps split: sum.splits)
lemma paths_GetDDLS:
  "sent_paths c (GetDDLS c n)
     = [''/sap/bc/adt/ddic/ddl/sources/'' @ PathEscape (ToUpper n) @ ''/source/main'']"
  by (simp add: sent_paths_def reader_simps split: sum.splits)
lemma paths_GetBDEF:
  "sent_paths c (GetBDEF c n)
     = [''/sap/bc/adt/bo/behaviordefinitions/'' @ PathEscape (ToUpper n) @ ''/source/main'']"
  by (simp add: sent_paths_def reader_simps split: sum.splits)
lemma paths_GetSRVD:
  "sent_paths c (GetSRVD c n)
     = [''/sap/bc/adt/ddic/srvd/sources/'' @ PathEscape (ToUpper n) @ ''/source/main'']"
  by (simp add: sent_paths_def reader_simps split: sum.splits)
lemma paths_GetSRVB:
  "sent_paths c (GetSRVB P c n)
     = [''/sap/bc/adt/businessservices/bindings/'' @ PathEscape (ToUpper n)]"
  by (simp add: sent_paths_def reader_simps split: sum.splits)
lemma paths_GetView:
  "sent_paths c (GetView c n)
     = [''/sap/bc/adt/ddic/views/'' @ PathEscape (ToUpper n) @ ''/source/main'']"
  by (simp add: sent_paths_def reader_simps split: sum.splits)
lemma paths_GetMessageClass:
  "sent_paths c (GetMessageClass U c n)
     = [''/sap/bc/adt/messageclass/'' @ PathEscape (ToLower (ToUpper n))]"
  by (simp add: sent_paths_def reader_simps split: sum.splits)
lemma query_GetPackage:
  "map (\<lambda>r. (Path r, map_of (Query (Options r)) ''parent_name'')) (sent c (GetPackage P c n))
     = [(''/sap/bc/adt/repository/nodestructure'', Some (ToUpper n))]"
  by (simp add: reader_simps noOptions_def split: sum.splits)

lemma url_contains_function:
  "url_contains x [a @ g @ b @ x @ d]"
  using url_contains_mid[of x "a @ g @ b" d] by simp

text \<open>
  Claim C3, as amended. For an ASCII name, the request path of the read operation of a
  program, class (source and object structure), interface, function group, function
  module (both its name and its group), include, CDS source, behaviour definition,
  service definition, service binding and view contains the path-escaped upper-cased
  name. The path of a message class contains the path-escaped lower-cased name instead,
  and the request for a package has a fixed path and carries the upper-cased name in the
  query parameter \<^verbatim>\<open>parent_name\<close>. An escaped name holds no \<^verbatim>\<open>/\<close>: each is written
  \<^verbatim>\<open>%2F\<close>. Tables and structures are left out of the statement.
\<close>

theorem request_paths_carry_encoded_name:
  assumes "isASCII name" and "isASCII groupName"
  shows
   "url_contains (PathEscape (ToUpper name)) (sent_paths c (GetProgram c name)) \<and>
    url_contains (PathEscape (ToUpper name)) (sent_paths c (GetClass c name)) \<and>
    url_contains (PathEscape (ToUpper name))
      (sent_paths c (GetClassMethods ParseClassObjectStructure GetMethods c name)) \<and>
    url_contains (PathEscape (ToUpper name)) (sent_paths c (GetInterface c name)) \<and>
    url_contains (PathEscape (ToUpper groupName))
      (sent_paths c (GetFunctionGroup UnmarshalGroup c groupName)) \<and>
    url_contains (PathEscape (ToUpper name)) (sent_paths c (GetFunction c name groupName)) \<and>
    url_contains (PathEscape (ToUpper groupName)) (sent_paths c (GetFunction c name groupName)) \<and>
    url_contains (PathEscape (ToUpper name)) (sent_paths c (GetInclude c name)) \<and>
    url_contains (PathEscape (ToUpper name)) (sent_paths c (GetDDLS c name)) \<and>
    url_contains (PathEscape (ToUpper name)) (sent_paths c (GetBDEF c name)) \<and>
    url_contains (PathEscape (ToUpper name)) (sent_paths c (GetSRVD c name)) \<and>
    url_contains (PathEscape (ToUpper name)) (sent_paths c (GetSRVB parseSRVBMetadata c name)) \<and>
    url_contains (PathEscape (ToUpper name)) (sent_paths c (GetView c name)) \<and>
    url_contains (PathEscape (ToLower name))
      (sent_paths c (GetMessageClass UnmarshalClass c name)) \<and>
    map (\<lambda>r. (Path r, map_of (Query (Options r)) ''parent_name''))
        (sent c (GetPackage parsePackageNodeStructure c name))
      = [(''/sap/bc/adt/repository/nodestructure'', Some (ToUpper name))] \<and>
    CHR ''/'' \<notin> set (PathEscape (ToUpper name)) \<and>
    PathEscape (a @ ''/'' @ b) = PathEscape a @ ''%2F'' @ PathEscape b"
proof -
  have slash: "PathEscape (a @ ''/'' @ b) = PathEscape a @ ''%2F'' @ PathEscape b"
    by (simp only: PathEscape_append PathEscape_slash)
  have mc: "url_contains (PathEscape (ToLower name))
      (sent_paths c (GetMessageClass UnmarshalClass c name))"
    by (simp only: paths_GetMessageClass ToLower_ToUpper url_contains_end)
  have fn: "url_contains (PathEscape (ToUpper name)) (sent_paths c (GetFunction c name groupName))"
    by (simp only: paths_GetFunction url_contains_function)
  show ?thesis
    by (intro conjI mc fn slash PathEscape_no_slash query_GetPackage)
       (simp_all only: paths_GetProgram paths_GetClass paths_GetClassMethods paths_GetInterface
          paths_GetFunctionGroup paths_GetFunction paths_GetInclude paths_GetDDLS paths_GetBDEF
          paths_GetSRVD paths_GetSRVB paths_GetView url_contains_mid url_contains_end)
qed

theorem request_paths_carry_encoded_name_witness:
  "isASCII ''/dmo/cl_x'' \<and> isASCII ''/aif/util'' \<and>
   url_contains ''%2FDMO%2FCL_X''
     (sent_paths (testClient denyAll ''CLASS x.'') (GetClass (testClient denyAll ''CLASS x.'') ''/dmo/cl_x'')) \<and>
   sent_paths (testClient denyAll ''CLASS x.'') (GetClass (testClient denyAll ''CLASS x.'') ''/dmo/cl_x'')
     = [''/sap/bc/adt/oo/classes/%2FDMO%2FCL_X/source/main'']"
proof -
  have a: "isASCII ''/dmo/cl_x''" "isASCII ''/aif/util''"
    by (simp_all add: isASCII_def)
  have e: "PathEscape (ToUpper ''/dmo/cl_x'') = ''%2FDMO%2FCL_X''"
    by (simp add: str_defs char_of_eq_iff)
  have p: "sent_paths (testClient denyAll ''CLASS x.'') (GetClass (testClient denyAll ''CLASS x.'') ''/dmo/cl_x'')
     = [''/sap/bc/adt/oo/classes/%2FDMO%2FCL_X/source/main'']"
    by (simp add: paths_GetClass e)
  from request_paths_carry_encoded_name[OF a, of "testClient denyAll ''CLASS x.''"]
  have "url_contains (PathEscape (ToUpper ''/dmo/cl_x''))
     (sent_paths (testClient denyAll ''CLASS x.'') (GetClass (testClient denyAll ''CLASS x.'') ''/dmo/cl_x''))"
    by blast
  then show ?thesis using a p by (simp only: e)
qed

text \<open>
  The claim as stated, for every kind of the addressing table, fails for the message
  class: the path for the lower-case name \<^verbatim>\<open>zmc\<close> does not contain \<^verbatim>\<open>ZMC\<close>.
\<close>

theorem message_class_path_counterexample:
  "\<not> url_contains (PathEscape (ToUpper ''zmc''))
       (sent_paths (testClient denyAll ''<x/>'')
          (GetMessageClass failingDecoder (testClient denyAll ''<x/>'') ''zmc'')) \<and>
   sent_paths (testClient denyAll ''<x/>'')
      (GetMessageClass failingDecoder (testClient denyAll ''<x/>'') ''zmc'')
     = [''/sap/bc/adt/messageclass/zmc'']"
proof -
  have e: "PathEscape (ToUpper ''zmc'') = ''ZMC''" "PathEscape (ToLower (ToUpper ''zmc'')) = ''zmc''"
    by (simp_all add: str_defs char_of_eq_iff)
  have p: "sent_paths (testClient denyAll ''<x/>'')
      (GetMessageClass failingDecoder (testClient denyAll ''<x/>'') ''zmc'')
     = [''/sap/bc/adt/messageclass/zmc'']"
    by (simp add: paths_GetMessageClass e)
  have "\<not> sublist ''ZMC'' ''/sap/bc/adt/messageclass/zmc''"
    by (simp add: sublist_code)
  then show ?thesis by (simp add: p e url_contains_def)
qed

text \<open>
  \<open>GetTable\<close> (and \<open>GetStructure\<close>, written the same way) puts the upper-cased name into
  the path without escaping it, unlike \<open>GetView\<close> beside it: the path for a namespaced
  table keeps its \<^verbatim>\<open>/\<close>.
\<close>

lemma table_path_not_escaped:
  "sent_paths (testClient denyAll ''x'') (GetTable (testClient denyAll ''x'') ''/ns/tab'')
     = [''/sap/bc/adt/ddic/tables//NS/TAB/source/main''] \<and>
   \<not> url_contains (PathEscape (ToUpper ''/ns/tab''))
       (sent_paths (testClient denyAll ''x'') (GetTable (testClient denyAll ''x'') ''/ns/tab''))"
proof -
  have e: "ToUpper ''/ns/tab'' = ''/NS/TAB''" "PathEscape ''/NS/TAB'' = ''%2FNS%2FTAB''"
    by (simp_all add: str_defs char_of_eq_iff)
  have p: "sent_paths (testClient denyAll ''x'') (GetTable (testClient denyAll ''x'') ''/ns/tab'')
     = [''/sap/bc/adt/ddic/tables//NS/TAB/source/main'']"
    by (simp add: sent_paths_def reader_simps e split: sum.splits)
  have "\<not> sublist ''%2FNS%2FTAB'' ''/sap/bc/adt/ddic/tables//NS/TAB/source/main''"
    by (simp add: sublist_code)
  then show ?thesis by (simp add: p e url_contains_def)
qed


subsection \<open>GetMessageClass\<close>

text \<open>
  Claim C10. For every ASCII name, \<open>GetMessageClass\<close> sends one request, to the path
  \<^verbatim>\<open>/sap/bc/adt/messageclass/\<close> followed by the lower-cased name in path-escaped form
  (the lower-cased name itself when none of its characters is escaped), and on success
  it returns a message class whose name is the upper-cased input name: when the
  transport answers and the body decodes to \<open>parsed\<close>, the result is \<open>parsed\<close> with its
  name replaced, whatever name the document carried.
\<close>

theorem GetMessageClass_lower_path_upper_name:
  assumes "isASCII name"
  shows
   "sent c (GetMessageClass Unmarshal c name)
      = [\<lparr>Path = ''/sap/bc/adt/messageclass/'' @ PathEscape (ToLower name),
          Options = noOptions\<lparr>Method := MethodGet,
                      Accept := ''application/vnd.sap.adt.mc.messageclass+xml''\<rparr>\<rparr>] \<and>
    (list_all (\<lambda>ch. \<not> shouldEscape ch) name \<longrightarrow>
       sent_paths c (GetMessageClass Unmarshal c name)
         = [''/sap/bc/adt/messageclass/'' @ ToLower name]) \<and>
    (\<forall>mc. fst (GetMessageClass Unmarshal c name) = Inr mc \<longrightarrow> ClassName mc = ToUpper name) \<and>
    (\<forall>resp parsed.
        respond (transport c) (requests (transport c))
          \<lparr>Path = ''/sap/bc/adt/messageclass/'' @ PathEscape (ToLower name),
            Options = noOptions\<lparr>Method := MethodGet,
                        Accept := ''application/vnd.sap.adt.mc.messageclass+xml''\<rparr>\<rparr> = Inr resp \<and>
        Unmarshal (Body resp) = Inr parsed \<longrightarrow>
        fst (GetMessageClass Unmarshal c name) = Inr (parsed\<lparr>ClassName := ToUpper name\<rparr>))"
proof -
  have s: "sent c (GetMessageClass Unmarshal c name)
      = [\<lparr>Path = ''/sap/bc/adt/messageclass/'' @ PathEscape (ToLower name),
          Options = noOptions\<lparr>Method := MethodGet,
                      Accept := ''application/vnd.sap.adt.mc.messageclass+xml''\<rparr>\<rparr>]"
    by (simp add: reader_simps ToLower_ToUpper split: sum.splits)
  have p: "list_all (\<lambda>ch. \<not> shouldEscape ch) name \<longrightarrow>
       sent_paths c (GetMessageClass Unmarshal c name)
         = [''/sap/bc/adt/messageclass/'' @ ToLower name]"
    by (simp add: paths_GetMessageClass ToLower_ToUpper PathEscape_lower_plain)
  have n: "\<forall>mc. fst (GetMessageClass Unmarshal c name) = Inr mc \<longrightarrow> ClassName mc = ToUpper name"
    by (auto simp: reader_simps split: sum.splits)
  have r: "\<forall>resp parsed.
        respond (transport c) (requests (transport c))
          \<lparr>Path = ''/sap/bc/adt/messageclass/'' @ PathEscape (ToLower name),
            Options = noOptions\<lparr>Method := MethodGet,
                        Accept := ''application/vnd.sap.adt.mc.messageclass+xml''\<rparr>\<rparr> = Inr resp \<and>
        Unmarshal (Body resp) = Inr parsed \<longrightarrow>
        fst (GetMessageClass Unmarshal c name) = Inr (parsed\<lparr>ClassName := ToUpper name\<rparr>)"
    by (simp add: reader_simps ToLower_ToUpper)
  from s p n r show ?thesis by blast
qed

theorem GetMessageClass_lower_path_upper_name_witness:
  "isASCII ''zTest_mc'' \<and>
   sent_paths (testClient denyAll ''<x/>'')
      (GetMessageClass (fixedDecoder serverClass) (testClient denyAll ''<x/>'') ''zTest_mc'')
     = [''/sap/bc/adt/messageclass/ztest_mc''] \<and>
   fst (GetMessageClass (fixedDecoder serverClass) (testClient denyAll ''<x/>'') ''zTest_mc'')
     = Inr (serverClass\<lparr>ClassName := ''ZTEST_MC''\<rparr>)"
proof -
  let ?c = "testClient denyAll ''<x/>''"
  have a: "isASCII ''zTest_mc''" by (simp add: isASCII_def)
  have pl: "list_all (\<lambda>ch. \<not> shouldEscape ch) ''zTest_mc''"
    by (simp add: shouldEscape_def isAlnum_def)
  have e: "ToLower ''zTest_mc'' = ''ztest_mc''" "ToUpper ''zTest_mc'' = ''ZTEST_MC''"
    "PathEscape ''ztest_mc'' = ''ztest_mc''"
    by (simp_all add: str_defs char_of_eq_iff)
  note t = GetMessageClass_lower_path_upper_name[OF a, of ?c "fixedDecoder serverClass"]
  from t pl have p: "sent_paths ?c (GetMessageClass (fixedDecoder serverClass) ?c ''zTest_mc'')
     = [''/sap/bc/adt/messageclass/'' @ ToLower ''zTest_mc'']"
    by blast
  have rs: "respond (transport ?c) (requests (transport ?c))
          \<lparr>Path = ''/sap/bc/adt/messageclass/'' @ PathEscape (ToLower ''zTest_mc''),
            Options = noOptions\<lparr>Method := MethodGet,
                        Accept := ''application/vnd.sap.adt.mc.messageclass+xml''\<rparr>\<rparr>
          = Inr \<lparr>Body = ''<x/>''\<rparr>"
    by (simp add: testClient_def answering_def)
  have um: "fixedDecoder serverClass (Body \<lparr>Body = ''<x/>''\<rparr>) = Inr serverClass"
    by (simp add: fixedDecoder_def)
  from t rs um have r: "fst (GetMessageClass (fixedDecoder serverClass) ?c ''zTest_mc'')
     = Inr (serverClass\<lparr>ClassName := ToUpper ''zTest_mc''\<rparr>)"
    by blast
  show ?thesis using a p r by (simp add: e)
qed


subsection \<open>GetClassMethodSource\<close>

text \<open>
  A slice expression that does not panic yields the lines between its bounds.
\<close>

lemma go_slice_lines:
  assumes "go_slice ls (a - 1) b = Some xs"
  shows "xs = lines_between ls a b \<and> 1 \<le> a \<and> a \<le> b + 1 \<and> b \<le> int (length ls)"
proof -
  from assms have bounds: "0 \<le> a - 1" "a - 1 \<le> b" "b \<le> int (length ls)"
    and xs: "xs = take (nat (b - (a - 1))) (drop (nat (a - 1)) ls)"
    by (auto simp: go_slice_def split: if_splits)
  have len: "length xs = length (lines_between ls a b)"
    using bounds by (simp add: xs lines_between_def)
  have nth: "xs ! i = lines_between ls a b ! i" if "i < length xs" for i
  proof -
    from that bounds have i: "int i < b - a + 1" by (simp add: xs)
    then have u: "[a..b] ! i = a + int i" by (simp add: nth_upto)
    have "xs ! i = ls ! (nat (a - 1) + i)"
      using that bounds by (simp add: xs)
    also have "nat (a - 1) + i = nat (a + int i - 1)" using bounds by simp
    finally have l: "xs ! i = ls ! nat (a + int i - 1)" .
    have li: "i < length [a..b]" using i by simp
    have "lines_between ls a b ! i = (\<lambda>j. ls ! nat (j - 1)) ([a..b] ! i)"
      unfolding lines_between_def by (rule nth_map[OF li])
    then have "lines_between ls a b ! i = ls ! nat (a + int i - 1)" by (simp only: u)
    with l show ?thesis by simp
  qed
  from len nth have "xs = lines_between ls a b" by (simp add: list_eq_iff_nth_eq)
  with bounds show ?thesis by simp
qed

lemma go_slice_defined:
  "1 \<le> a \<Longrightarrow> a \<le> b + 1 \<Longrightarrow> b \<le> int (length ls) \<Longrightarrow> go_slice ls (a - 1) b \<noteq> None"
  by (simp add: go_slice_def)

lemma GetClassMethodSource_unfold:
  assumes "GetClassMethods P G c (ToUpper cn) = (Inr methods, c1)"
  shows "GetClassMethodSource P G c cn mn =
     (case find (\<lambda>m. MethodName m = ToUpper mn) methods of
        None \<Rightarrow> (Inl (MethodNotFound (ToUpper mn) (ToUpper cn)), c1)
      | Some methodInfo \<Rightarrow>
          if ImplementationStart methodInfo = 0 \<or> ImplementationEnd methodInfo = 0
          then (Inl (NoImplementation (ToUpper mn)), c1)
          else
            (case GetClassSource c1 (ToUpper cn) of
               (Inl err, c2) \<Rightarrow> (Inl (Wrap ''getting class source'' err), c2)
             | (Inr fullSource, c2) \<Rightarrow>
                 if ImplementationEnd methodInfo > int (length (Split fullSource CHR 0x0A))
                 then (Inl (RangeExceeds (ImplementationStart methodInfo) (ImplementationEnd methodInfo)
                              (int (length (Split fullSource CHR 0x0A)))), c2)
                 else
                   (case go_slice (Split fullSource CHR 0x0A) (ImplementationStart methodInfo - 1)
                           (ImplementationEnd methodInfo) of
                      None \<Rightarrow> (Inl (PanicSliceBounds (ImplementationStart methodInfo - 1)
                                      (ImplementationEnd methodInfo)), c2)
                    | Some methodLines \<Rightarrow> (Inr (Join methodLines [CHR 0x0A]), c2))))"
  by (simp add: GetClassMethodSource_def assms Let_def split: option.splits sum.splits prod.splits)

text \<open>
  What the operation does on an ordered range. Let the names be ASCII and the object
  structure of the class have been fetched, with the methods \<open>methods\<close>.
  \<open>GetClassMethodSource\<close> fails with \<open>MethodNotFound\<close> when no method has the (upper-cased)
  name, and with \<open>NoImplementation\<close> when the method's start or end line is 0. Otherwise
  it fetches the main source; it fails with \<open>RangeExceeds\<close> when the end line is greater
  than the number of lines of the source, and for \<open>1 \<le> start \<le> end \<le> number of lines\<close>
  it returns the lines \<open>start\<close> through \<open>end\<close>, inclusive and counted from 1, joined by
  newlines. Whenever it returns a text at all, the text is exactly these lines.
\<close>

lemma GetClassMethodSource_cases:
  assumes "GetClassMethods ParseClassObjectStructure GetMethods c (ToUpper className)
             = (Inr methods, afterMethods)"
    and "isASCII className" and "isASCII methodName"
  shows
   "(find (\<lambda>m. MethodName m = ToUpper methodName) methods = None \<longrightarrow>
       fst (GetClassMethodSource ParseClassObjectStructure GetMethods c className methodName)
         = Inl (MethodNotFound (ToUpper methodName) (ToUpper className))) \<and>
    (find (\<lambda>m. MethodName m = ToUpper methodName) methods = Some methodInfo \<longrightarrow>
       ((ImplementationStart methodInfo = 0 \<or> ImplementationEnd methodInfo = 0 \<longrightarrow>
           fst (GetClassMethodSource ParseClassObjectStructure GetMethods c className methodName)
             = Inl (NoImplementation (ToUpper methodName))) \<and>
        (ImplementationStart methodInfo \<noteq> 0 \<and> ImplementationEnd methodInfo \<noteq> 0 \<and>
         GetClassSource afterMethods (ToUpper className) = (Inr fullSource, afterSource) \<longrightarrow>
           (int (length (Split fullSource CHR 0x0A)) < ImplementationEnd methodInfo \<longrightarrow>
              fst (GetClassMethodSource ParseClassObjectStructure GetMethods c className
                     methodName)
                = Inl (RangeExceeds (ImplementationStart methodInfo) (ImplementationEnd methodInfo)
                         (int (length (Split fullSource CHR 0x0A))))) \<and>
           (1 \<le> ImplementationStart methodInfo \<and>
            ImplementationStart methodInfo \<le> ImplementationEnd methodInfo \<and>
            ImplementationEnd methodInfo \<le> int (length (Split fullSource CHR 0x0A)) \<longrightarrow>
              fst (GetClassMethodSource ParseClassObjectStructure GetMethods c className
                     methodName)
                = Inr (Join (lines_between (Split fullSource CHR 0x0A) (ImplementationStart methodInfo)
                               (ImplementationEnd methodInfo)) [CHR 0x0A]))))) \<and>
    (fst (GetClassMethodSource ParseClassObjectStructure GetMethods c className methodName)
         = Inr res \<longrightarrow>
       (\<exists>methodInfo fullSource afterSource.
          find (\<lambda>m. MethodName m = ToUpper methodName) methods = Some methodInfo \<and>
          GetClassSource afterMethods (ToUpper className) = (Inr fullSource, afterSource) \<and>
          1 \<le> ImplementationStart methodInfo \<and>
          ImplementationStart methodInfo \<le> ImplementationEnd methodInfo + 1 \<and>
          ImplementationEnd methodInfo \<le> int (length (Split fullSource CHR 0x0A)) \<and>
          res = Join (lines_between (Split fullSource CHR 0x0A) (ImplementationStart methodInfo)
                         (ImplementationEnd methodInfo)) [CHR 0x0A]))"
proof -
  note u = GetClassMethodSource_unfold[OF assms(1), where mn = methodName]
  have absent: "find (\<lambda>m. MethodName m = ToUpper methodName) methods = None \<longrightarrow>
       fst (GetClassMethodSource ParseClassObjectStructure GetMethods c className methodName)
         = Inl (MethodNotFound (ToUpper methodName) (ToUpper className))"
    by (simp add: u)
  have present: "(ImplementationStart methodInfo = 0 \<or> ImplementationEnd methodInfo = 0 \<longrightarrow>
           fst (GetClassMethodSource ParseClassObjectStructure GetMethods c className methodName)
             = Inl (NoImplementation (ToUpper methodName))) \<and>
        (ImplementationStart methodInfo \<noteq> 0 \<and> ImplementationEnd methodInfo \<noteq> 0 \<and>
         GetClassSource afterMethods (ToUpper className) = (Inr fullSource, afterSource) \<longrightarrow>
           (int (length (Split fullSource CHR 0x0A)) < ImplementationEnd methodInfo \<longrightarrow>
              fst (GetClassMethodSource ParseClassObjectStructure GetMethods c className
                     methodName)
                = Inl (RangeExceeds (ImplementationStart methodInfo) (ImplementationEnd methodInfo)
                         (int (length (Split fullSource CHR 0x0A))))) \<and>
           (1 \<le> ImplementationStart methodInfo \<and>
            ImplementationStart methodInfo \<le> ImplementationEnd methodInfo \<and>
            ImplementationEnd methodInfo \<le> int (length (Split fullSource CHR 0x0A)) \<longrightarrow>
              fst (GetClassMethodSource ParseClassObjectStructure GetMethods c className
                     methodName)
                = Inr (Join (lines_between (Split fullSource CHR 0x0A) (ImplementationStart methodInfo)
                               (ImplementationEnd methodInfo)) [CHR 0x0A])))"
    if f: "find (\<lambda>m. MethodName m = ToUpper methodName) methods = Some methodInfo"
    for methodInfo fullSource afterSource
  proof (intro conjI impI)
    assume "ImplementationStart methodInfo = 0 \<or> ImplementationEnd methodInfo = 0"
    then show "fst (GetClassMethodSource ParseClassObjectStructure GetMethods c className methodName)
             = Inl (NoImplementation (ToUpper methodName))"
      by (simp add: u f)
  next
    assume a: "ImplementationStart methodInfo \<noteq> 0 \<and> ImplementationEnd methodInfo \<noteq> 0 \<and>
         GetClassSource afterMethods (ToUpper className) = (Inr fullSource, afterSource)"
      and b: "int (length (Split fullSource CHR 0x0A)) < ImplementationEnd methodInfo"
    then show "fst (GetClassMethodSource ParseClassObjectStructure GetMethods c className
                     methodName)
                = Inl (RangeExceeds (ImplementationStart methodInfo) (ImplementationEnd methodInfo)
                         (int (length (Split fullSource CHR 0x0A))))"
      by (simp add: u f)
  next
    assume a: "ImplementationStart methodInfo \<noteq> 0 \<and> ImplementationEnd methodInfo \<noteq> 0 \<and>
         GetClassSource afterMethods (ToUpper className) = (Inr fullSource, afterSource)"
      and b: "1 \<le> ImplementationStart methodInfo \<and>
            ImplementationStart methodInfo \<le> ImplementationEnd methodInfo \<and>
            ImplementationEnd methodInfo \<le> int (length (Split fullSource CHR 0x0A))"
    from b obtain xs where
      g: "go_slice (Split fullSource CHR 0x0A) (ImplementationStart methodInfo - 1) (ImplementationEnd methodInfo)
            = Some xs"
      using go_slice_defined[of "ImplementationStart methodInfo" "ImplementationEnd methodInfo"
              "Split fullSource CHR 0x0A"] by auto
    from go_slice_lines[OF g] have "xs = lines_between (Split fullSource CHR 0x0A)
        (ImplementationStart methodInfo) (ImplementationEnd methodInfo)" by simp
    with a b g show "fst (GetClassMethodSource ParseClassObjectStructure GetMethods c className
                     methodName)
                = Inr (Join (lines_between (Split fullSource CHR 0x0A) (ImplementationStart methodInfo)
                               (ImplementationEnd methodInfo)) [CHR 0x0A])"
      by (simp add: u f)
  qed
  have returned: "\<exists>methodInfo fullSource afterSource.
          find (\<lambda>m. MethodName m = ToUpper methodName) methods = Some methodInfo \<and>
          GetClassSource afterMethods (ToUpper className) = (Inr fullSource, afterSource) \<and>
          1 \<le> ImplementationStart methodInfo \<and>
          ImplementationStart methodInfo \<le> ImplementationEnd methodInfo + 1 \<and>
          ImplementationEnd methodInfo \<le> int (length (Split fullSource CHR 0x0A)) \<and>
          res = Join (lines_between (Split fullSource CHR 0x0A) (ImplementationStart methodInfo)
                         (ImplementationEnd methodInfo)) [CHR 0x0A]"
    if t: "fst (GetClassMethodSource ParseClassObjectStructure GetMethods c className methodName)
         = Inr res" for res
    using t unfolding u
    by (auto split: option.splits if_splits prod.splits sum.splits dest!: go_slice_lines)
  from absent present[of methodInfo fullSource afterSource] returned[of res] show ?thesis by blast
qed


text \<open>The cases on an example: a source of four lines and three methods.\<close>

lemma GetClassMethodSource_cases_example:
  "fst (GetClassMethodSource demoParse demoGetMethods (testClient denyAll demoSource)
          ''zcl_demo'' ''run'') = Inr ''l2\<newline>l3'' \<and>
   fst (GetClassMethodSource demoParse demoGetMethods (testClient denyAll demoSource)
          ''zcl_demo'' ''missing'') = Inl (MethodNotFound ''MISSING'' ''ZCL_DEMO'') \<and>
   fst (GetClassMethodSource demoParse demoGetMethods (testClient denyAll demoSource)
          ''zcl_demo'' ''abstract_one'') = Inl (NoImplementation ''ABSTRACT_ONE'') \<and>
   fst (GetClassMethodSource demoParse demoGetMethods (testClient denyAll demoSource)
          ''zcl_demo'' ''far'') = Inl (RangeExceeds 3 9 4)"
proof -
  let ?c = "testClient denyAll demoSource"
  let ?cm = "snd (GetClassMethods demoParse demoGetMethods ?c (ToUpper ''zcl_demo''))"
  let ?cs = "snd (GetClassSource ?cm (ToUpper ''zcl_demo''))"
  have up: "ToUpper ''zcl_demo'' = ''ZCL_DEMO''" "ToUpper ''run'' = ''RUN''"
    "ToUpper ''missing'' = ''MISSING''" "ToUpper ''abstract_one'' = ''ABSTRACT_ONE''"
    "ToUpper ''far'' = ''FAR''"
    by (simp_all add: ToUpper_def upper_byte_def char_of_eq_iff)
  have az: "isASCII ''zcl_demo''" and a_run: "isASCII ''run''" and a_missing: "isASCII ''missing''"
    and a_abs: "isASCII ''abstract_one''" and a_far: "isASCII ''far''"
    by (simp_all add: isASCII_def)
  have "fst (GetClassMethods demoParse demoGetMethods ?c (ToUpper ''zcl_demo'')) = Inr demoMethods"
    by (simp add: reader_simps testClient_def answering_def demoParse_def demoGetMethods_def)
  then have ms: "GetClassMethods demoParse demoGetMethods ?c (ToUpper ''zcl_demo'')
                   = (Inr demoMethods, ?cm)"
    by (simp add: prod_eq_iff)
  have "fst (GetClassSource ?cm (ToUpper ''zcl_demo'')) = Inr demoSource"
    by (simp add: reader_simps testClient_def answering_def demoParse_def demoGetMethods_def)
  then have fullSource: "GetClassSource ?cm (ToUpper ''zcl_demo'') = (Inr demoSource, ?cs)"
    by (simp add: prod_eq_iff)
  have sp: "Split demoSource CHR 0x0A = [''l1'', ''l2'', ''l3'', ''l4'']"
    by (simp add: demoSource_def)
  have lb: "Join (lines_between [''l1'', ''l2'', ''l3'', ''l4''] 2 3) [CHR 0x0A] = ''l2\<newline>l3''"
    by (simp add: lines_between_def upto_rec_numeral)
  have f_run: "find (\<lambda>m. MethodName m = ToUpper ''run'') demoMethods
      = Some \<lparr>MethodName = ''RUN'', ImplementationStart = 2, ImplementationEnd = 3\<rparr>"
    and f_missing: "find (\<lambda>m. MethodName m = ToUpper ''missing'') demoMethods = None"
    and f_abs: "find (\<lambda>m. MethodName m = ToUpper ''abstract_one'') demoMethods
      = Some \<lparr>MethodName = ''ABSTRACT_ONE'', ImplementationStart = 0, ImplementationEnd = 0\<rparr>"
    and f_far: "find (\<lambda>m. MethodName m = ToUpper ''far'') demoMethods
      = Some \<lparr>MethodName = ''FAR'', ImplementationStart = 3, ImplementationEnd = 9\<rparr>"
    by (simp_all add: up demoMethods_def)
  have r1: "fst (GetClassMethodSource demoParse demoGetMethods ?c ''zcl_demo'' ''run'')
              = Inr ''l2\<newline>l3''"
    using GetClassMethodSource_cases[OF ms az a_run, where fullSource = demoSource
            and afterSource = ?cs
            and methodInfo = "\<lparr>MethodName = ''RUN'', ImplementationStart = 2, ImplementationEnd = 3\<rparr>"]
          f_run fullSource
    by (simp add: sp lb)
  have r2: "fst (GetClassMethodSource demoParse demoGetMethods ?c ''zcl_demo'' ''missing'')
              = Inl (MethodNotFound ''MISSING'' ''ZCL_DEMO'')"
    using GetClassMethodSource_cases[OF ms az a_missing] f_missing
    by (simp add: up)
  have r3: "fst (GetClassMethodSource demoParse demoGetMethods ?c ''zcl_demo'' ''abstract_one'')
              = Inl (NoImplementation ''ABSTRACT_ONE'')"
    using GetClassMethodSource_cases[OF ms az a_abs, where methodInfo = "\<lparr>MethodName = ''ABSTRACT_ONE'', ImplementationStart = 0,
                           ImplementationEnd = 0\<rparr>"]
          f_abs
    by (simp add: up)
  have r4: "fst (GetClassMethodSource demoParse demoGetMethods ?c ''zcl_demo'' ''far'')
              = Inl (RangeExceeds 3 9 4)"
    using GetClassMethodSource_cases[OF ms az a_far, where fullSource = demoSource
            and afterSource = ?cs
            and methodInfo = "\<lparr>MethodName = ''FAR'', ImplementationStart = 3, ImplementationEnd = 9\<rparr>"]
          f_far fullSource
    by (simp add: sp up)
  from r1 r2 r3 r4 show ?thesis by blast
qed

text \<open>
  Claim C7 says that \<open>GetClassMethodSource\<close> fails when the line bounds exceed the number
  of lines of the source. The check of the code compares the end line only. For the
  method \<^verbatim>\<open>RUN\<close> of \<open>startBeyondSource\<close>, which starts at line 5 and ends at line 2, and
  a main source of 3 lines, the start line exceeds the number of lines, the end line does
  not, no error is returned, and the slice expression \<^verbatim>\<open>lines[4:2]\<close> panics.
\<close>

theorem GetClassMethodSource_start_beyond_source:
  "isASCII ''zcl_demo'' \<and> isASCII ''run'' \<and>
   fst (GetClassMethods demoParse startBeyondSourceMethods (testClient denyAll threeLines)
          ''zcl_demo'')
     = Inr [\<lparr>MethodName = ''RUN'', ImplementationStart = 5, ImplementationEnd = 2\<rparr>] \<and>
   fst (GetClassSource (testClient denyAll threeLines) ''zcl_demo'') = Inr ''l1\<newline>l2\<newline>l3'' \<and>
   length (Split ''l1\<newline>l2\<newline>l3'' CHR 0x0A) = 3 \<and>
   fst (GetClassMethodSource demoParse startBeyondSourceMethods (testClient denyAll threeLines)
          ''zcl_demo'' ''run'')
     = Inl (PanicSliceBounds 4 2)"
proof -
  have up: "ToUpper ''zcl_demo'' = ''ZCL_DEMO''" "ToUpper ''ZCL_DEMO'' = ''ZCL_DEMO''"
    "ToUpper ''run'' = ''RUN''"
    by (simp_all add: ToUpper_def upper_byte_def char_of_eq_iff)
  have a: "isASCII ''zcl_demo''" "isASCII ''run''"
    by (simp_all add: isASCII_def)
  have m: "fst (GetClassMethods demoParse startBeyondSourceMethods
                  (testClient denyAll threeLines) ''zcl_demo'')
     = Inr [\<lparr>MethodName = ''RUN'', ImplementationStart = 5, ImplementationEnd = 2\<rparr>]"
    by (simp add: reader_simps testClient_def answering_def demoParse_def
          startBeyondSourceMethods_def startBeyondSource_def)
  have s: "fst (GetClassSource (testClient denyAll threeLines) ''zcl_demo'')
             = Inr ''l1\<newline>l2\<newline>l3''"
    by (simp add: reader_simps testClient_def answering_def threeLines_def)
  have l: "length (Split ''l1\<newline>l2\<newline>l3'' CHR 0x0A) = 3"
    by simp
  have r: "fst (GetClassMethodSource demoParse startBeyondSourceMethods
                  (testClient denyAll threeLines) ''zcl_demo'' ''run'')
     = Inl (PanicSliceBounds 4 2)"
    by (simp add: GetClassMethodSource_def reader_simps up testClient_def answering_def
          demoParse_def startBeyondSourceMethods_def startBeyondSource_def threeLines_def
          go_slice_def)
  from a m s l r show ?thesis by blast
qed


section \<open>Properties of the message-class editor and of the debug daemon\<close>

text \<open>
  The editor on the scenarios of the specification: a new message is appended before the
  closing tag with the prefix of its siblings, its text escaped and its lock handle
  attached; a deleted message goes with its nested children, the rest of the bytes stay.
\<close>

lemma scenario_add_with_lock:
  "modifyMessageClassXML twoMessages [(''003'', ''New <message>'')] [''003'' \<mapsto> ''LOCK123'']
     = Inr (''<mc:messageClass mc:name=\"ZMC\">\<newline><mc:messages mc:msgno=\"001\" mc:msgtext=\"Keep\">\<newline><atom:link href=\"messages/001\"/>\<newline></mc:messages>\<newline><mc:messages mc:msgno=\"002\" mc:msgtext=\"Drop\">\<newline><atom:link href=\"messages/002\"/>\<newline></mc:messages>\<newline><mc:messages mc:msgno=\"003\" mc:msgtext=\"New &lt;message&gt;\" mc:lockhandle=\"LOCK123\"/>\<newline></mc:messageClass>'',
            [(''003'', ''New <message>'')], [])"
  by code_simp

lemma scenario_delete_with_children:
  "modifyMessageClassXML twoMessages [(''002'', [])] Map.empty
     = Inr (''<mc:messageClass mc:name=\"ZMC\">\<newline><mc:messages mc:msgno=\"001\" mc:msgtext=\"Keep\">\<newline><atom:link href=\"messages/001\"/>\<newline></mc:messages>\<newline>\<newline></mc:messageClass>'',
            [], [''002''])"
  by code_simp

lemmas http_defs = writeError_def writeSuccess_def writeJSON_def StatusOK_def StatusNotFound_def
  StatusConflict_def StatusMethodNotAllowed_def

text \<open>
  Claim C2. For every document (every sequence of bytes, so every message-class XML
  document) and every map of lock handles, \<open>modifyMessageClassXML\<close> with the empty update
  map, which holds the deletions too, returns the input bytes unchanged, with no number
  updated and none deleted.
\<close>

theorem modifyMessageClassXML_noop:
  "modifyMessageClassXML xmlData [] lockHandles = Inr (xmlData, [], [])"
  by (simp add: modifyMessageClassXML_def)

text \<open>
  Claim C8. In every state of the daemon whose session has the status \<^verbatim>\<open>waiting\<close>,
  \<^verbatim>\<open>caught\<close> or \<^verbatim>\<open>attached\<close>, \<^verbatim>\<open>POST /session\<close> answers 409 with the envelope
  \<^verbatim>\<open>{success: false, error: "session already active"}\<close>, leaves the daemon as it was
  and starts no listener. A request changes the session slot only when there was no
  session or the session had the status \<^verbatim>\<open>stopped\<close>.
\<close>

theorem second_start_conflicts:
  "(session d = Some s \<and> Status s \<in> {''waiting'', ''caught'', ''attached''} \<longrightarrow>
      startSession d req cfgUsername nowNano now =
        (\<lparr>StatusCode = 409,
           Envelope = \<lparr>Success = False, Data = NoData, Error = ''session already active''\<rparr>\<rparr>,
         d, [])) \<and>
   (session (fst (snd (startSession d req cfgUsername nowNano now))) \<noteq> session d \<longrightarrow>
      session d = None \<or> (\<exists>s'. session d = Some s' \<and> Status s' = ''stopped''))"
  by (auto simp: startSession_def http_defs Let_def split: option.splits)

theorem second_start_conflicts_witness:
  "startSession (sessionWith ''waiting'') emptyRequest ''DEVELOPER'' 1700000000000000000 1700000000000000001
     = (\<lparr>StatusCode = 409,
          Envelope = \<lparr>Success = False, Data = NoData, Error = ''session already active''\<rparr>\<rparr>,
        sessionWith ''waiting'', []) \<and>
   session (fst (snd (startSession noSession emptyRequest ''DEVELOPER'' 5 6))) \<noteq> session noSession \<and>
   session noSession = None"
proof -
  have h: "session (sessionWith ''waiting'')
             = Some \<lparr>ID = ''dbg-1'', Status = ''waiting'', User = ''DEVELOPER'', StartTime = 1,
                       DebuggeeID = [], CurrentURI = [], CurrentLine = 0, SessionError = []\<rparr>"
    by (simp add: sessionWith_def)
  have n: "session (fst (snd (startSession noSession emptyRequest ''DEVELOPER'' 5 6))) \<noteq> session noSession"
    by (simp add: startSession_def noSession_def emptyRequest_def Let_def)
  let ?s = "\<lparr>ID = ''dbg-1'', Status = ''waiting'', User = ''DEVELOPER'', StartTime = 1,
             DebuggeeID = [], CurrentURI = [], CurrentLine = 0, SessionError = []\<rparr>"
  show ?thesis
    using second_start_conflicts[where d = "sessionWith ''waiting''" and s = ?s
            and req = emptyRequest and cfgUsername = "''DEVELOPER''"
            and nowNano = 1700000000000000000 and now = 1700000000000000001] h
          second_start_conflicts[where d = noSession and s = ?s and req = emptyRequest
            and cfgUsername = "''DEVELOPER''" and nowNano = 5 and now = 6] n
    by (simp add: noSession_def)
qed

text \<open>
  The claim C9 as stated fails for \<^verbatim>\<open>GET /session\<close>: with no session the reply has the
  status 200 and a success envelope.
\<close>

theorem getSession_without_session_counterexample:
  "StatusCode (fst (handleSession noSession ''GET'' emptyRequest ''DEVELOPER'' 5 6)) = 200 \<and>
   Success (Envelope (fst (handleSession noSession ''GET'' emptyRequest ''DEVELOPER'' 5 6)))"
  by (simp add: handleSession_def getSession_def noSession_def http_defs)

text \<open>
  Claim C9, as amended. When the daemon has no session, \<^verbatim>\<open>DELETE /session\<close> answers 404
  with the envelope \<^verbatim>\<open>{success: false, error: "no active session"}\<close>, and
  \<^verbatim>\<open>GET /session\<close> answers 200 with the envelope
  \<^verbatim>\<open>{success: true, data: {status: "no_session"}}\<close>; neither changes the daemon.
\<close>

theorem no_session_replies:
  "session d = None \<Longrightarrow>
     handleSession d ''DELETE'' req cfgUsername nowNano now =
       (\<lparr>StatusCode = 404,
          Envelope = \<lparr>Success = False, Data = NoData, Error = ''no active session''\<rparr>\<rparr>, d, []) \<and>
     handleSession d ''GET'' req cfgUsername nowNano now =
       (\<lparr>StatusCode = 200,
          Envelope = \<lparr>Success = True, Data = Fields [(''status'', JString ''no_session'')],
                      Error = []\<rparr>\<rparr>, d, [])"
  by (simp add: handleSession_def getSession_def stopSession_def http_defs)

theorem no_session_replies_witness:
  "session noSession = None \<and>
   StatusCode (fst (handleSession noSession ''DELETE'' emptyRequest ''DEVELOPER'' 5 6)) = 404 \<and>
   StatusCode (fst (handleSession noSession ''GET'' emptyRequest ''DEVELOPER'' 5 6)) = 200"
proof -
  have h: "session noSession = None" by (simp add: noSession_def)
  show ?thesis using h no_session_replies[OF h, of emptyRequest "''DEVELOPER''" 5 6] by simp
qed


end
